theory Spec2Isabelle
  imports Complex_Main
begin

section \<open>The vowel synthesizer core\<close>

text \<open>
  A shallow embedding of the class \<open>VowelSynthesizerCore\<close> and of the table \<open>VOWELS\<close>.
  JavaScript numbers are IEEE-754 doubles, and the numeric functions are embedded twice.

  First over the exact reals, where \<open>Math.sqrt\<close> is \<^const>\<open>sqrt\<close> and \<open>/\<close> is real division.
  The properties of signs, of counts, of bounds that hold with a margin and of the state of
  the object are proved on these definitions. Wherever such a theorem relies on a quotient
  of the code, the divisor is shown to be different from zero, so the convention
  \<open>x / 0 = 0\<close> of HOL is never the reason a statement holds.

  Second with the rounding of every operation written out and taken as a parameter. A
  property that depends on which of two nearly equal numbers is the smaller, or on two
  results being equal, is proved on those definitions: for every rounding where it holds
  for every rounding, and for the rounding to double where a value of the code is computed.

  The non-finite values (\<open>NaN\<close>, \<open>Infinity\<close>) have no counterpart in either.
\<close>

subsection \<open>The catalog\<close>

record vowel_data =
  formants :: "real list"
  pos :: "real list"

text \<open>
  \<open>VOWELS\<close> is an object literal whose keys are not integer-like, so \<open>Object.entries\<close>
  lists them in the order they are written. The keys outside ASCII are given by the bytes
  of their UTF-8 encoding.
\<close>

definition VOWELS :: "(string \<times> vowel_data) list" where
  "VOWELS =
    [ (''i'', \<lparr>formants = [270, 2290, 3010], pos = [0.9, 0.9]\<rparr>),
      (''I'', \<lparr>formants = [390, 1990, 2550], pos = [0.85, 0.75]\<rparr>),
      (''e'', \<lparr>formants = [530, 1840, 2480], pos = [0.8, 0.6]\<rparr>),
      ([CHR 0xC9, CHR 0x9B], \<lparr>formants = [660, 1720, 2410], pos = [0.7, 0.4]\<rparr>),
      ([CHR 0xC3, CHR 0xA6], \<lparr>formants = [860, 1550, 2410], pos = [0.7, 0.2]\<rparr>),
      ([CHR 0xC9, CHR 0x99], \<lparr>formants = [490, 1350, 1690], pos = [0.5, 0.5]\<rparr>),
      ([CHR 0xC9, CHR 0x91], \<lparr>formants = [730, 1090, 2440], pos = [0.4, 0.15]\<rparr>),
      ([CHR 0xC9, CHR 0x94], \<lparr>formants = [570, 840, 2410], pos = [0.3, 0.35]\<rparr>),
      (''o'', \<lparr>formants = [450, 870, 2410], pos = [0.2, 0.55]\<rparr>),
      (''u'', \<lparr>formants = [300, 870, 2240], pos = [0.1, 0.9]\<rparr>),
      ([CHR 0xCA, CHR 0x8A], \<lparr>formants = [440, 1020, 2240], pos = [0.15, 0.75]\<rparr>) ]"

subsection \<open>interpolateFormants\<close>

text \<open>The objects \<open>{ name, data, dist }\<close> pushed onto \<open>distances\<close>.\<close>

record entry =
  name :: string
  data :: vowel_data
  dist :: real

text \<open>
  The local constants of \<open>interpolateFormants(x, y)\<close>, one definition each, in the order
  of the body. \<open>Array.prototype.sort\<close> is stable and the comparator \<open>a.dist - b.dist\<close>
  orders by \<open>dist\<close>, so the sorted array is the stable sort by that key, which is what
  \<^const>\<open>sort_key\<close> (insertion sort, an element going in front of its equals to the right)
  computes. \<open>totalWeight\<close> is accumulated from 0 in the order of \<open>nearest\<close>.
  The catalog has eleven entries of three formants each, so \<open>nearest[j]\<close> and
  \<open>data.formants[i]\<close> are read inside their arrays for \<open>i, j < 3\<close> (\<open>length_nearest\<close>,
  \<open>distances_props\<close> below).
\<close>

definition distances :: "real \<Rightarrow> real \<Rightarrow> entry list" where
  "distances x y =
     map (\<lambda>(n, d).
            let dx = pos d ! 0 - x;
                dy = pos d ! 1 - y
            in \<lparr>name = n, data = d, dist = sqrt (dx * dx + dy * dy)\<rparr>) VOWELS"

definition nearest :: "real \<Rightarrow> real \<Rightarrow> entry list" where
  "nearest x y = take 3 (sort_key dist (distances x y))"

definition weights :: "real \<Rightarrow> real \<Rightarrow> real list" where
  "weights x y = map (\<lambda>v. 1.0 / (dist v + 0.01)) (nearest x y)"

definition totalWeight :: "real \<Rightarrow> real \<Rightarrow> real" where
  "totalWeight x y = foldl (+) 0 (weights x y)"

definition normalizedWeights :: "real \<Rightarrow> real \<Rightarrow> real list" where
  "normalizedWeights x y = map (\<lambda>w. w / totalWeight x y) (weights x y)"

definition interpolateFormants :: "real \<Rightarrow> real \<Rightarrow> real list" where
  "interpolateFormants x y =
     map (\<lambda>i. foldl (\<lambda>acc j. acc + formants (data (nearest x y ! j)) ! i
                                   * (normalizedWeights x y ! j)) 0 [0..<3])
         [0..<3]"

subsection \<open>scaleFormantsForGender and calculateBandwidth\<close>

definition scaleFormantsForGender :: "real list \<Rightarrow> real \<Rightarrow> real list" where
  "scaleFormantsForGender fs genderFactor =
     (let scale = (if genderFactor \<le> 1.0 then 1.0 + 0.18 * genderFactor
                   else 1.18 + 0.25 * (genderFactor - 1.0))
      in map (\<lambda>f. f * scale) fs)"

definition calculateBandwidth :: "real \<Rightarrow> real \<Rightarrow> real" where
  "calculateBandwidth formantFreq qualityFactor =
     (let baseBW = formantFreq * 0.08;
          mult = (if qualityFactor \<ge> 0 then 1.0 + 0.5 * qualityFactor
                  else 1.0 + 0.3 * qualityFactor)
      in baseBW * mult)"

subsection \<open>The synthesizer object and the calls it makes to the audio graph\<close>

text \<open>
  The fields of \<open>VowelSynthesizerCore\<close> that \<open>updateVowel\<close> and the setters read or assign.
  A field typed \<open>T | null\<close> is an option; an audio context is represented by the one
  property the methods read, its clock. The fields \<open>preGain\<close>, \<open>analyser\<close> and
  \<open>waveformBuffer\<close> are touched only by \<open>start\<close> and by the drawing code.
\<close>

datatype audio_node = OscillatorNode | BiquadFilterNode | GainNode

record audio_context =
  currentTime :: real

record synth =
  audioContext :: "audio_context option"
  oscillator :: "audio_node option"
  filters :: "audio_node list"
  masterGain :: "audio_node option"
  isRunning :: bool
  vowelX :: real
  vowelY :: real
  genderFactor :: real
  qualityFactor :: real
  volume :: real

text \<open>The field initialisers of the class: the object as \<open>new VowelSynthesizerCore()\<close> makes it.\<close>

definition initial_synth :: synth where
  "initial_synth =
     \<lparr>audioContext = None, oscillator = None, filters = [], masterGain = None,
      isRunning = False, vowelX = 0.5, vowelY = 0.5, genderFactor = 0.0,
      qualityFactor = 0.0, volume = 25\<rparr>"

text \<open>
  The audio graph belongs to the browser. What the methods do to it is recorded as the
  list of calls they make, each with its arguments:
  \<open>filters[i].frequency.setTargetAtTime(value, startTime, timeConstant)\<close>, the same on
  \<open>filters[i].Q\<close> and on \<open>oscillator.frequency\<close>, and
  \<open>masterGain.gain.setValueAtTime(value, startTime)\<close>.
\<close>

datatype host_call =
    FilterFrequencyTarget nat real real real
  | FilterQTarget nat real real real
  | OscillatorFrequencyTarget real real real
  | MasterGainValue real real

text \<open>\<open>filters[i]\<close> is \<open>undefined\<close> beyond the end of the array, and reading a property of it throws.\<close>

datatype error = TypeError

text \<open>
  A method returns the object after the call, the calls made to the audio graph, and the
  exception that ended it, if any.
\<close>

type_synonym outcome = "synth \<times> host_call list \<times> error option"

text \<open>
  The body of the loop of \<open>updateVowel\<close> over the indices still to visit. The calls made
  before an exception stay made. \<open>formants[i]\<close> is read from the three-element array that
  \<open>scaleFormantsForGender\<close> returns on the result of \<open>interpolateFormants\<close>.
\<close>

fun updateVowel_loop :: "synth \<Rightarrow> real list \<Rightarrow> real \<Rightarrow> nat list \<Rightarrow> host_call list \<times> error option" where
  "updateVowel_loop s fs now [] = ([], None)"
| "updateVowel_loop s fs now (i # rest) =
     (let freq = fs ! i;
          bw = calculateBandwidth freq (qualityFactor s);
          Q = freq / bw
      in if i < length (filters s)
         then (let (calls, e) = updateVowel_loop s fs now rest
               in (FilterFrequencyTarget i freq now 0.02 # FilterQTarget i Q now 0.02 # calls, e))
         else ([], Some TypeError))"

definition updateVowel :: "synth \<Rightarrow> outcome" where
  "updateVowel s =
     (case audioContext s of
        None \<Rightarrow> (s, [], None)
      | Some ctx \<Rightarrow>
          if \<not> isRunning s then (s, [], None)
          else (let fs = interpolateFormants (vowelX s) (vowelY s);
                    fs = scaleFormantsForGender fs (genderFactor s);
                    now = currentTime ctx;
                    (calls, e) = updateVowel_loop s fs now [0..<3]
                in (s, calls, e)))"

definition setPitch :: "real \<Rightarrow> synth \<Rightarrow> outcome" where
  "setPitch f0 s =
     (case (oscillator s, audioContext s) of
        (Some osc, Some ctx) \<Rightarrow>
          if isRunning s then (s, [OscillatorFrequencyTarget f0 (currentTime ctx) 0.02], None)
          else (s, [], None)
      | _ \<Rightarrow> (s, [], None))"

definition setVowelPosition :: "real \<Rightarrow> real \<Rightarrow> synth \<Rightarrow> outcome" where
  "setVowelPosition x y s = updateVowel (s\<lparr>vowelX := x, vowelY := y\<rparr>)"

definition setGender :: "real \<Rightarrow> synth \<Rightarrow> outcome" where
  "setGender factor s = updateVowel (s\<lparr>genderFactor := factor\<rparr>)"

definition setQuality :: "real \<Rightarrow> synth \<Rightarrow> outcome" where
  "setQuality factor s = updateVowel (s\<lparr>qualityFactor := factor\<rparr>)"

definition setVolume :: "real \<Rightarrow> synth \<Rightarrow> outcome" where
  "setVolume vol s =
     (let s' = s\<lparr>volume := vol\<rparr>
      in case (masterGain s', audioContext s') of
           (Some g, Some ctx) \<Rightarrow>
             if isRunning s' then (s', [MasterGainValue vol (currentTime ctx)], None)
             else (s', [], None)
         | _ \<Rightarrow> (s', [], None))"

subsection \<open>Reading the calls\<close>

text \<open>
  The center frequencies and the Q values that a list of calls hands to the filters, in the
  order of the calls: the \<open>FormantOutput\<close> of the specification.
\<close>

fun filter_frequencies :: "host_call list \<Rightarrow> real list" where
  "filter_frequencies [] = []"
| "filter_frequencies (FilterFrequencyTarget i v t c # cs) = v # filter_frequencies cs"
| "filter_frequencies (_ # cs) = filter_frequencies cs"

fun filter_Qs :: "host_call list \<Rightarrow> real list" where
  "filter_Qs [] = []"
| "filter_Qs (FilterQTarget i v t c # cs) = v # filter_Qs cs"
| "filter_Qs (_ # cs) = filter_Qs cs"

text \<open>
  A synthesizer whose audio is on, as a successful \<open>start()\<close> leaves it: the context and
  the nodes exist, there are three filters, and \<open>isRunning\<close> is set.
\<close>

definition started :: "synth \<Rightarrow> bool" where
  "started s \<longleftrightarrow>
     isRunning s \<and> audioContext s \<noteq> None \<and> oscillator s \<noteq> None
     \<and> masterGain s \<noteq> None \<and> length (filters s) = 3"

text \<open>
  The object after \<open>new VowelSynthesizerCore()\<close> and a successful \<open>start()\<close>, the clock of
  its audio context reading \<open>t\<close>; and an object with the clock moved to \<open>t\<close>, everything
  else as it was, since the clock runs on between two calls.
\<close>

definition started_synth :: "real \<Rightarrow> synth" where
  "started_synth t =
     initial_synth\<lparr>audioContext := Some \<lparr>currentTime = t\<rparr>, oscillator := Some OscillatorNode,
       filters := [BiquadFilterNode, BiquadFilterNode, BiquadFilterNode],
       masterGain := Some GainNode, isRunning := True\<rparr>"

definition at_time :: "real \<Rightarrow> synth \<Rightarrow> synth" where
  "at_time t s = s\<lparr>audioContext := map_option (\<lambda>c. c\<lparr>currentTime := t\<rparr>) (audioContext s)\<rparr>"

subsection \<open>The same arithmetic, rounded\<close>

text \<open>
  The definitions above compute with exact reals. The code computes with doubles: the
  result of every \<open>+\<close>, \<open>-\<close>, \<open>*\<close>, \<open>/\<close> and of \<open>Math.sqrt\<close> is rounded, and a decimal literal
  such as \<open>0.08\<close> denotes the double nearest to it. Where two anchors are equally far from
  the query over the reals, or where a claim speaks of equal results, the two differ. The
  definitions of this subsection repeat the bodies of the numeric functions and of
  \<open>updateVowel\<close> with the rounding made explicit and taken as a parameter: \<open>rnd\<close>
  rounds the exact result of an operation or the value of a literal, and \<open>sq\<close> is
  \<open>Math.sqrt\<close>. The literals \<open>0\<close>, \<open>1.0\<close>, \<open>0.5\<close> and the integer formants are doubles as they
  stand. With \<open>rnd\<close> the identity and \<open>sq\<close> the real square root these are the exact
  definitions (\<open>exact_instance\<close> below); with \<open>fl\<close> and \<open>double_sqrt\<close> they are the doubles
  of the code.

  \<open>fl\<close> rounds a real to the nearest number with a significand of 53 bits, a tie going to
  the even significand: binary64 as long as the magnitude stays within the range of the
  normal doubles, which it does for queries in the unit square. Overflow, subnormal
  numbers, \<open>NaN\<close> and infinities are not modelled. \<open>Math.sqrt\<close> is taken to be correctly
  rounded.
\<close>

definition round_even :: "real \<Rightarrow> int" where
  "round_even x =
     (let f = \<lfloor>x\<rfloor>
      in if x - of_int f < 1/2 then f
         else if 1/2 < x - of_int f then f + 1
         else if even f then f else f + 1)"

definition fl :: "real \<Rightarrow> real" where
  "fl r =
     (if r = 0 then 0
      else let u = 2 powr (of_int \<lfloor>log 2 \<bar>r\<bar>\<rfloor> - 52)
           in of_int (round_even (r / u)) * u)"

definition double_sqrt :: "real \<Rightarrow> real" where
  "double_sqrt r = fl (sqrt r)"

text \<open>The positions of the table are decimal literals; the formants are integers.\<close>

definition VOWELS_fl :: "(real \<Rightarrow> real) \<Rightarrow> (string \<times> vowel_data) list" where
  "VOWELS_fl rnd = map (\<lambda>(n, d). (n, d\<lparr>pos := map rnd (pos d)\<rparr>)) VOWELS"

text \<open>
  \<open>interpolateFormants\<close>, rounded. The comparator \<open>a.dist - b.dist\<close> is a rounded
  difference of two doubles; its sign is the sign of the exact difference, since a
  difference of two doubles that is not zero does not round to zero. So the sort is
  again the stable sort by \<open>dist\<close>.
\<close>

definition distances_fl :: "(real \<Rightarrow> real) \<Rightarrow> (real \<Rightarrow> real) \<Rightarrow> real \<Rightarrow> real \<Rightarrow> entry list" where
  "distances_fl rnd sq x y =
     map (\<lambda>(n, d).
            let dx = rnd (pos d ! 0 - x);
                dy = rnd (pos d ! 1 - y)
            in \<lparr>name = n, data = d, dist = sq (rnd (rnd (dx * dx) + rnd (dy * dy)))\<rparr>)
         (VOWELS_fl rnd)"

definition nearest_fl :: "(real \<Rightarrow> real) \<Rightarrow> (real \<Rightarrow> real) \<Rightarrow> real \<Rightarrow> real \<Rightarrow> entry list" where
  "nearest_fl rnd sq x y = take 3 (sort_key dist (distances_fl rnd sq x y))"

definition weights_fl :: "(real \<Rightarrow> real) \<Rightarrow> (real \<Rightarrow> real) \<Rightarrow> real \<Rightarrow> real \<Rightarrow> real list" where
  "weights_fl rnd sq x y =
     map (\<lambda>v. rnd (1.0 / rnd (dist v + rnd 0.01))) (nearest_fl rnd sq x y)"

definition totalWeight_fl :: "(real \<Rightarrow> real) \<Rightarrow> (real \<Rightarrow> real) \<Rightarrow> real \<Rightarrow> real \<Rightarrow> real" where
  "totalWeight_fl rnd sq x y = foldl (\<lambda>t w. rnd (t + w)) 0 (weights_fl rnd sq x y)"

definition normalizedWeights_fl :: "(real \<Rightarrow> real) \<Rightarrow> (real \<Rightarrow> real) \<Rightarrow> real \<Rightarrow> real \<Rightarrow> real list" where
  "normalizedWeights_fl rnd sq x y =
     map (\<lambda>w. rnd (w / totalWeight_fl rnd sq x y)) (weights_fl rnd sq x y)"

definition interpolateFormants_fl :: "(real \<Rightarrow> real) \<Rightarrow> (real \<Rightarrow> real) \<Rightarrow> real \<Rightarrow> real \<Rightarrow> real list" where
  "interpolateFormants_fl rnd sq x y =
     map (\<lambda>i. foldl (\<lambda>acc j. rnd (acc + rnd (formants (data (nearest_fl rnd sq x y ! j)) ! i
                                              * (normalizedWeights_fl rnd sq x y ! j))))
                0 [0..<3])
         [0..<3]"

text \<open>
  \<open>calculateBandwidth\<close>, rounded, with its local constant \<open>mult\<close> as a definition of its
  own, and the quotient \<open>Q = freq / bw\<close> of the loop of \<open>updateVowel\<close>.
\<close>

definition bandwidth_mult_fl :: "(real \<Rightarrow> real) \<Rightarrow> real \<Rightarrow> real" where
  "bandwidth_mult_fl rnd q =
     (if q \<ge> 0 then rnd (1.0 + rnd (0.5 * q))
      else rnd (1.0 + rnd (rnd 0.3 * q)))"

definition calculateBandwidth_fl :: "(real \<Rightarrow> real) \<Rightarrow> real \<Rightarrow> real \<Rightarrow> real" where
  "calculateBandwidth_fl rnd formantFreq q =
     (let baseBW = rnd (formantFreq * rnd 0.08);
          mult = bandwidth_mult_fl rnd q
      in rnd (baseBW * mult))"

definition filter_Q_fl :: "(real \<Rightarrow> real) \<Rightarrow> real \<Rightarrow> real \<Rightarrow> real" where
  "filter_Q_fl rnd freq q =
     (let bw = calculateBandwidth_fl rnd freq q in rnd (freq / bw))"

text \<open>\<open>scaleFormantsForGender\<close> and \<open>updateVowel\<close> with its loop, rounded in the same way.\<close>

definition scaleFormantsForGender_fl :: "(real \<Rightarrow> real) \<Rightarrow> real list \<Rightarrow> real \<Rightarrow> real list" where
  "scaleFormantsForGender_fl rnd fs g =
     (let scale = (if g \<le> 1.0 then rnd (1.0 + rnd (rnd 0.18 * g))
                   else rnd (rnd 1.18 + rnd (0.25 * rnd (g - 1.0))))
      in map (\<lambda>f. rnd (f * scale)) fs)"

fun updateVowel_loop_fl ::
  "(real \<Rightarrow> real) \<Rightarrow> synth \<Rightarrow> real list \<Rightarrow> real \<Rightarrow> nat list \<Rightarrow> host_call list \<times> error option" where
  "updateVowel_loop_fl rnd s fs now [] = ([], None)"
| "updateVowel_loop_fl rnd s fs now (i # rest) =
     (let freq = fs ! i;
          Q = filter_Q_fl rnd freq (qualityFactor s)
      in if i < length (filters s)
         then (let (calls, e) = updateVowel_loop_fl rnd s fs now rest
               in (FilterFrequencyTarget i freq now (rnd 0.02)
                     # FilterQTarget i Q now (rnd 0.02) # calls, e))
         else ([], Some TypeError))"

definition updateVowel_fl :: "(real \<Rightarrow> real) \<Rightarrow> (real \<Rightarrow> real) \<Rightarrow> synth \<Rightarrow> outcome" where
  "updateVowel_fl rnd sq s =
     (case audioContext s of
        None \<Rightarrow> (s, [], None)
      | Some ctx \<Rightarrow>
          if \<not> isRunning s then (s, [], None)
          else (let fs = interpolateFormants_fl rnd sq (vowelX s) (vowelY s);
                    fs = scaleFormantsForGender_fl rnd fs (genderFactor s);
                    now = currentTime ctx;
                    (calls, e) = updateVowel_loop_fl rnd s fs now [0..<3]
                in (s, calls, e)))"

subsection \<open>The interpolation as the specification words it\<close>







section \<open>Auxiliary facts\<close>

subsection \<open>Shape of the interpolation\<close>

lemma upt_3: "[0..<3] = [0, 1, 2]"
  by (simp add: upt_rec)

lemma length_distances: "length (distances x y) = 11"
  by (simp add: distances_def VOWELS_def)

lemma length_nearest: "length (nearest x y) = 3"
  by (simp add: nearest_def length_distances)

lemma nearest_subset: "set (nearest x y) \<subseteq> set (distances x y)"
  unfolding nearest_def using set_take_subset [of 3 "sort_key dist (distances x y)"] by simp

lemma nearest_cases:
  obtains a b c where "nearest x y = [a, b, c]"
proof -
  have "length (nearest x y) = Suc (Suc (Suc 0))" by (simp add: length_nearest)
  then obtain a b c where "nearest x y = [a, b, c]"
    by (auto simp: length_Suc_conv)
  then show ?thesis by (rule that)
qed

lemma distances_props:
  assumes "v \<in> set (distances x y)"
  shows "0 \<le> dist v" and "length (formants (data v)) = 3"
    and "\<forall>f \<in> set (formants (data v)). 0 < f"
  using assms by (auto simp: distances_def VOWELS_def Let_def)

lemma weights_unfold:
  "nearest x y = [a, b, c] \<Longrightarrow>
   weights x y = [1 / (dist a + 0.01), 1 / (dist b + 0.01), 1 / (dist c + 0.01)]"
  by (simp add: weights_def)

lemma totalWeight_unfold:
  "nearest x y = [a, b, c] \<Longrightarrow>
   totalWeight x y = 1 / (dist a + 0.01) + 1 / (dist b + 0.01) + 1 / (dist c + 0.01)"
  by (simp add: totalWeight_def weights_def)

lemma interpolateFormants_unfold:
  assumes "nearest x y = [a, b, c]"
  shows "interpolateFormants x y =
     map (\<lambda>i. formants (data a) ! i * (1 / (dist a + 0.01) / totalWeight x y)
             + formants (data b) ! i * (1 / (dist b + 0.01) / totalWeight x y)
             + formants (data c) ! i * (1 / (dist c + 0.01) / totalWeight x y)) [0, 1, 2]"
  using assms by (simp add: interpolateFormants_def upt_3 normalizedWeights_def weights_def)

subsection \<open>Sorting and taking three is selecting the closest three times\<close>










text \<open>Without rounding, the rounded definitions are the exact ones.\<close>

lemma VOWELS_fl_exact: "VOWELS_fl (\<lambda>r. r) = VOWELS"
  by (simp add: VOWELS_fl_def VOWELS_def)

lemma exact_instance:
  "nearest_fl (\<lambda>r. r) sqrt x y = nearest x y"
  "interpolateFormants_fl (\<lambda>r. r) sqrt x y = interpolateFormants x y"
  "calculateBandwidth_fl (\<lambda>r. r) freq q = calculateBandwidth freq q"
  "filter_Q_fl (\<lambda>r. r) freq q = freq / calculateBandwidth freq q"
proof -
  show n: "nearest_fl (\<lambda>r. r) sqrt x y = nearest x y"
    by (simp add: nearest_fl_def nearest_def distances_fl_def distances_def VOWELS_fl_exact)
  have w: "weights_fl (\<lambda>r. r) sqrt x y = weights x y"
    by (simp add: weights_fl_def weights_def n)
  have t: "totalWeight_fl (\<lambda>r. r) sqrt x y = totalWeight x y"
    by (simp add: totalWeight_fl_def totalWeight_def w)
  have nw: "normalizedWeights_fl (\<lambda>r. r) sqrt x y = normalizedWeights x y"
    by (simp add: normalizedWeights_fl_def normalizedWeights_def w t)
  show "interpolateFormants_fl (\<lambda>r. r) sqrt x y = interpolateFormants x y"
    by (simp add: interpolateFormants_fl_def interpolateFormants_def n nw)
  show c: "calculateBandwidth_fl (\<lambda>r. r) freq q = calculateBandwidth freq q"
    by (simp add: calculateBandwidth_fl_def calculateBandwidth_def bandwidth_mult_fl_def)
  show "filter_Q_fl (\<lambda>r. r) freq q = freq / calculateBandwidth freq q"
    by (simp add: filter_Q_fl_def c)
qed

subsection \<open>Signs\<close>

lemma weight_pos: "v \<in> set (nearest x y) \<Longrightarrow> 0 < dist v + 0.01"
  using nearest_subset [of x y] distances_props(1) [of v x y] by auto

lemma totalWeight_pos: "0 < totalWeight x y"
proof -
  obtain a b c where n: "nearest x y = [a, b, c]" by (rule nearest_cases)
  have "0 < dist a + 0.01" "0 < dist b + 0.01" "0 < dist c + 0.01"
    using weight_pos [of _ x y] by (simp_all add: n)
  then have "0 < 1 / (dist a + 0.01)" "0 < 1 / (dist b + 0.01)" "0 < 1 / (dist c + 0.01)"
    by simp_all
  then have "0 < 1 / (dist a + 0.01) + 1 / (dist b + 0.01) + 1 / (dist c + 0.01)"
    by linarith
  then show ?thesis by (simp only: totalWeight_unfold [OF n])
qed

lemma formant_band_pos:
  assumes "v \<in> set (nearest x y)" and "i < 3"
  shows "0 < formants (data v) ! i"
proof -
  have v: "v \<in> set (distances x y)" using assms(1) nearest_subset by auto
  have "i < length (formants (data v))" using distances_props(2) [OF v] assms(2) by simp
  then have "formants (data v) ! i \<in> set (formants (data v))" by simp
  then show ?thesis using distances_props(3) [OF v] by blast
qed

lemma blend_pos:
  fixes fa fb fc wa wb wc T :: real
  assumes "0 < fa" "0 < fb" "0 < fc" "0 < wa" "0 < wb" "0 < wc" "0 < T"
  shows "0 < fa * (1 / wa / T) + fb * (1 / wb / T) + fc * (1 / wc / T)"
proof -
  have "0 < fa * (1 / wa / T)" "0 < fb * (1 / wb / T)" "0 < fc * (1 / wc / T)"
    using assms by simp_all
  then show ?thesis by linarith
qed

lemma interpolateFormants_three:
  obtains f1 f2 f3 where "interpolateFormants x y = [f1, f2, f3]" "0 < f1" "0 < f2" "0 < f3"
proof -
  obtain a b c where n: "nearest x y = [a, b, c]" by (rule nearest_cases)
  have d: "0 < dist a + 0.01" "0 < dist b + 0.01" "0 < dist c + 0.01"
    using weight_pos [of _ x y] by (simp_all add: n)
  have f: "\<And>i. i < 3 \<Longrightarrow> 0 < formants (data a) ! i"
          "\<And>i. i < 3 \<Longrightarrow> 0 < formants (data b) ! i"
          "\<And>i. i < 3 \<Longrightarrow> 0 < formants (data c) ! i"
    using formant_band_pos [of _ x y] by (simp_all add: n)
  let ?F = "\<lambda>i. formants (data a) ! i * (1 / (dist a + 0.01) / totalWeight x y)
             + formants (data b) ! i * (1 / (dist b + 0.01) / totalWeight x y)
             + formants (data c) ! i * (1 / (dist c + 0.01) / totalWeight x y)"
  have p: "\<And>i. i < 3 \<Longrightarrow> 0 < ?F i"
    by (rule blend_pos) (simp_all only: f d totalWeight_pos)
  have "interpolateFormants x y = [?F 0, ?F 1, ?F 2]"
    by (simp only: interpolateFormants_unfold [OF n] list.map)
  moreover have "0 < ?F 0" "0 < ?F 1" "0 < ?F 2" by (rule p, simp)+
  ultimately show ?thesis by (rule that)
qed

lemma scaleFormantsForGender_map:
  "scaleFormantsForGender fs g =
     map (\<lambda>f. f * (if g \<le> 1.0 then 1.0 + 0.18 * g else 1.18 + 0.25 * (g - 1.0))) fs"
  by (simp add: scaleFormantsForGender_def Let_def)

lemma scale_neutral: "scaleFormantsForGender fs 0 = fs"
  by (simp add: scaleFormantsForGender_def)

lemma scale_pos:
  fixes g :: real
  assumes "0 \<le> g"
  shows "0 < (if g \<le> 1.0 then 1.0 + 0.18 * g else 1.18 + 0.25 * (g - 1.0))"
  using assms by (auto simp: field_simps)

lemma scaled_three:
  assumes "0 \<le> g"
  obtains f1 f2 f3 where
    "scaleFormantsForGender (interpolateFormants x y) g = [f1, f2, f3]" "0 < f1" "0 < f2" "0 < f3"
proof -
  obtain a b c where i: "interpolateFormants x y = [a, b, c]" and p: "0 < a" "0 < b" "0 < c"
    by (rule interpolateFormants_three)
  let ?k = "if g \<le> 1.0 then 1.0 + 0.18 * g else 1.18 + 0.25 * (g - 1.0)"
  have k: "0 < ?k" using assms by (rule scale_pos)
  have "scaleFormantsForGender (interpolateFormants x y) g = [a * ?k, b * ?k, c * ?k]"
    by (simp only: scaleFormantsForGender_map i list.map)
  moreover have "0 < a * ?k" "0 < b * ?k" "0 < c * ?k"
    using p k by (simp_all only: mult_pos_pos)
  ultimately show ?thesis by (rule that)
qed

lemma bandwidth_pos:
  assumes "0 < f" "-1 \<le> q" "q \<le> 1"
  shows "0 < calculateBandwidth f q" and "f * 0.08 * 0.7 \<le> calculateBandwidth f q"
proof -
  let ?m = "if q \<ge> 0 then 1.0 + 0.5 * q else 1.0 + 0.3 * q"
  have m: "0.7 \<le> ?m" using assms(2) by simp
  have c: "calculateBandwidth f q = f * 0.08 * ?m" by (simp add: calculateBandwidth_def)
  have b: "0 < f * 0.08" using assms(1) by simp
  show "f * 0.08 * 0.7 \<le> calculateBandwidth f q"
    unfolding c using m b by (intro mult_left_mono) simp_all
  moreover have "0 < f * 0.08 * 0.7" using assms(1) by simp
  ultimately show "0 < calculateBandwidth f q" by linarith
qed

lemma Q_pos:
  assumes "0 < f" "-1 \<le> q" "q \<le> 1"
  shows "0 < f / calculateBandwidth f q"
  using assms(1) bandwidth_pos(1) [OF assms] by (rule divide_pos_pos)

subsection \<open>updateVowel on a started synthesizer\<close>

lemma updateVowel_loop_three:
  assumes "length (filters s) = 3"
  shows "updateVowel_loop s [f1, f2, f3] now [0..<3] =
     ([FilterFrequencyTarget 0 f1 now 0.02,
       FilterQTarget 0 (f1 / calculateBandwidth f1 (qualityFactor s)) now 0.02,
       FilterFrequencyTarget 1 f2 now 0.02,
       FilterQTarget 1 (f2 / calculateBandwidth f2 (qualityFactor s)) now 0.02,
       FilterFrequencyTarget 2 f3 now 0.02,
       FilterQTarget 2 (f3 / calculateBandwidth f3 (qualityFactor s)) now 0.02], None)"
  using assms by (simp add: upt_3 Let_def)

lemma updateVowel_started:
  assumes "started s"
    and "scaleFormantsForGender (interpolateFormants (vowelX s) (vowelY s)) (genderFactor s)
           = [f1, f2, f3]"
  shows "\<exists>calls. updateVowel s = (s, calls, None)
           \<and> filter_frequencies calls = [f1, f2, f3]
           \<and> filter_Qs calls = map (\<lambda>f. f / calculateBandwidth f (qualityFactor s)) [f1, f2, f3]"
proof -
  from assms(1) obtain ctx where c: "audioContext s = Some ctx" and r: "isRunning s"
    and l: "length (filters s) = 3"
    by (auto simp: started_def)
  show ?thesis
    by (simp add: updateVowel_def c r assms(2) updateVowel_loop_three [OF l] del: upt_Suc)
qed

lemma updateVowel_state: "fst (updateVowel s) = s"
  by (simp add: updateVowel_def Let_def split: option.splits prod.splits)

lemma updateVowel_loop_clock:
  assumes "qualityFactor s' = qualityFactor s" "filters s' = filters s"
  shows "filter_frequencies (fst (updateVowel_loop s' fs now' is))
           = filter_frequencies (fst (updateVowel_loop s fs now is))
       \<and> filter_Qs (fst (updateVowel_loop s' fs now' is))
           = filter_Qs (fst (updateVowel_loop s fs now is))
       \<and> snd (updateVowel_loop s' fs now' is) = snd (updateVowel_loop s fs now is)"
  using assms by (induction "is") (auto simp: Let_def split: prod.splits)

lemma updateVowel_clock:
  "filter_frequencies (fst (snd (updateVowel (at_time t s))))
     = filter_frequencies (fst (snd (updateVowel s)))
   \<and> filter_Qs (fst (snd (updateVowel (at_time t s)))) = filter_Qs (fst (snd (updateVowel s)))
   \<and> snd (snd (updateVowel (at_time t s))) = snd (snd (updateVowel s))"
proof (cases "audioContext s")
  case None
  then show ?thesis by (simp add: updateVowel_def at_time_def)
next
  case (Some ctx)
  let ?fs = "scaleFormantsForGender (interpolateFormants (vowelX s) (vowelY s)) (genderFactor s)"
  have a: "qualityFactor (at_time t s) = qualityFactor s" "filters (at_time t s) = filters s"
    by (simp_all add: at_time_def)
  note l = updateVowel_loop_clock [OF a, of ?fs t "[0..<3]" "currentTime ctx"]
  show ?thesis
  proof (cases "isRunning s")
    case False
    then show ?thesis by (simp add: updateVowel_def at_time_def Some)
  next
    case True
    have 1: "updateVowel s = (s, updateVowel_loop s ?fs (currentTime ctx) [0..<3])"
      by (simp add: updateVowel_def Some True Let_def split: prod.splits del: upt_Suc)
    have 2: "updateVowel (at_time t s) = (at_time t s, updateVowel_loop (at_time t s) ?fs t [0..<3])"
      by (simp add: updateVowel_def at_time_def Some True Let_def split: prod.splits del: upt_Suc)
    show ?thesis unfolding 1 2 using l by simp
  qed
qed

lemma started_started_synth: "started (started_synth t)"
  by (simp add: started_def started_synth_def initial_synth_def)

lemma started_synth_fields:
  "vowelX (started_synth t) = 0.5" "vowelY (started_synth t) = 0.5"
  "genderFactor (started_synth t) = 0" "qualityFactor (started_synth t) = 0"
  "isRunning (started_synth t)" "audioContext (started_synth t) = Some \<lparr>currentTime = t\<rparr>"
  by (simp_all add: started_synth_def initial_synth_def)

subsection \<open>The query at the anchors\<close>

lemma nearest_09:
  "nearest 0.9 0.9 =
    [\<lparr>name = ''i'', data = \<lparr>formants = [270, 2290, 3010], pos = [0.9, 0.9]\<rparr>, dist = 0\<rparr>,
     \<lparr>name = ''I'', data = \<lparr>formants = [390, 1990, 2550], pos = [0.85, 0.75]\<rparr>,
      dist = sqrt (1/40)\<rparr>,
     \<lparr>name = ''e'', data = \<lparr>formants = [530, 1840, 2480], pos = [0.8, 0.6]\<rparr>,
      dist = sqrt (1/10)\<rparr>]"
  by (simp add: nearest_def distances_def VOWELS_def Let_def)

lemma sqrt_40_bounds: "0.158 < sqrt (1/40)" "sqrt (1/40) < 0.159"
  by (rule real_less_rsqrt, simp add: power2_eq_square)
     (rule real_less_lsqrt, simp_all add: power2_eq_square)

lemma sqrt_10_bounds: "0.316 < sqrt (1/10)" "sqrt (1/10) < 0.317"
  by (rule real_less_rsqrt, simp add: power2_eq_square)
     (rule real_less_lsqrt, simp_all add: power2_eq_square)

lemma weight_bounds_09:
  "5.917 < 1 / (sqrt (1/40) + 0.01)" "1 / (sqrt (1/40) + 0.01) < 5.953"
  "3.058 < 1 / (sqrt (1/10) + 0.01)" "1 / (sqrt (1/10) + 0.01) < 3.0675"
  using sqrt_40_bounds sqrt_10_bounds by (simp_all add: field_simps)

lemma interpolate_09:
  obtains f1 f2 f3 where "interpolateFormants 0.9 0.9 = [f1, f2, f3]"
    "283.8 < f1" "f1 < 283.9" "2260 < f2" "f2 < 2262" "2969 < f3" "f3 < 2971"
proof -
  define w1 :: real where "w1 = 1 / (sqrt (1/40) + 0.01)"
  define w2 :: real where "w2 = 1 / (sqrt (1/10) + 0.01)"
  define T where "T = 100 + w1 + w2"
  have b: "5.917 < w1" "w1 < 5.953" "3.058 < w2" "w2 < 3.0675"
    unfolding w1_def w2_def by (rule weight_bounds_09)+
  have T: "0 < T" unfolding T_def using b by linarith
  have tw: "totalWeight 0.9 0.9 = T"
    by (simp add: totalWeight_unfold [OF nearest_09] T_def w1_def w2_def)
  let ?F = "\<lambda>a b c. (a * 100 + b * w1 + c * w2) / T"
  have i: "interpolateFormants 0.9 0.9 = [?F 270 390 530, ?F 2290 1990 1840, ?F 3010 2550 2480]"
    by (simp add: interpolateFormants_unfold [OF nearest_09] tw w1_def w2_def add_divide_distrib)
  have "283.8 < ?F 270 390 530" "?F 270 390 530 < 283.9"
       "2260 < ?F 2290 1990 1840" "?F 2290 1990 1840 < 2262"
       "2969 < ?F 3010 2550 2480" "?F 3010 2550 2480 < 2971"
    using T b by (simp_all add: pos_less_divide_eq pos_divide_less_eq T_def)
  with i show ?thesis by (rule that)
qed

lemma normalizedWeights_unfold:
  "nearest x y = [a, b, c] \<Longrightarrow>
   normalizedWeights x y =
      [1 / (dist a + 0.01) / totalWeight x y, 1 / (dist b + 0.01) / totalWeight x y,
       1 / (dist c + 0.01) / totalWeight x y]"
  by (simp only: normalizedWeights_def weights_unfold list.map)

text \<open>
  When the first selected entry is at distance 0 and the two others are more than 0.01
  away, its weight is 100 and theirs are below 50 each.
\<close>

lemma exact_anchor_blend:
  assumes "\<exists>b c. nearest x y = [\<lparr>name = n, data = d, dist = 0\<rparr>, b, c]
             \<and> 1 / 10000 < (dist b)\<^sup>2 \<and> 1 / 10000 < (dist c)\<^sup>2"
  shows "\<exists>e1 e2 w0 w1 w2.
           nearest x y = [\<lparr>name = n, data = d, dist = 0\<rparr>, e1, e2]
         \<and> normalizedWeights x y = [w0, w1, w2]
         \<and> 0 < w1 \<and> 0 < w2 \<and> w1 < w0 \<and> w2 < w0 \<and> w1 + w2 < w0 \<and> w0 + w1 + w2 = 1
         \<and> interpolateFormants x y =
              map (\<lambda>i. formants d ! i * w0 + formants (data e1) ! i * w1
                        + formants (data e2) ! i * w2) [0, 1, 2]"
proof -
  let ?a = "\<lparr>name = n, data = d, dist = 0\<rparr>"
  from assms obtain b c where n: "nearest x y = [?a, b, c]"
    and sq: "1 / 10000 < (dist b)\<^sup>2" "1 / 10000 < (dist c)\<^sup>2" by blast
  have mem: "b \<in> set (distances x y)" "c \<in> set (distances x y)"
    using nearest_subset [of x y] by (simp_all add: n)
  have nn: "0 \<le> dist b" "0 \<le> dist c"
    using mem distances_props(1) by blast+
  have sq': "(1 / 100)\<^sup>2 < (dist b)\<^sup>2" "(1 / 100)\<^sup>2 < (dist c)\<^sup>2"
    using sq by (simp_all add: power2_eq_square)
  have far: "1 / 100 < dist b" "1 / 100 < dist c"
    by (rule power2_less_imp_less [OF sq'(1) nn(1)]) (rule power2_less_imp_less [OF sq'(2) nn(2)])
  define T where "T = totalWeight x y"
  define wa :: real where "wa = 1 / (dist ?a + 0.01)"
  define wb where "wb = 1 / (dist b + 0.01)"
  define wc where "wc = 1 / (dist c + 0.01)"
  have wa: "wa = 100" by (simp add: wa_def)
  have wb: "0 < wb" "wb < 50" using far(1) nn(1) by (simp_all add: wb_def field_simps)
  have wc: "0 < wc" "wc < 50" using far(2) nn(2) by (simp_all add: wc_def field_simps)
  have T: "T = wa + wb + wc"
    by (simp only: T_def totalWeight_unfold [OF n] wa_def wb_def wc_def)
  have Tpos: "0 < T" using wa wb wc by (simp add: T)
  have nw: "normalizedWeights x y = [wa / T, wb / T, wc / T]"
    by (simp only: normalizedWeights_unfold [OF n] T_def wa_def wb_def wc_def)
  have i: "interpolateFormants x y =
              map (\<lambda>i. formants d ! i * (wa / T) + formants (data b) ! i * (wb / T)
                        + formants (data c) ! i * (wc / T)) [0, 1, 2]"
    using interpolateFormants_unfold [OF n] by (simp add: T_def wa_def wb_def wc_def)
  have "0 < wb / T" "0 < wc / T" using wb wc Tpos by simp_all
  moreover have "wb / T < wa / T" "wc / T < wa / T"
    using wa wb wc Tpos by (simp_all add: divide_strict_right_mono)
  moreover have "wb / T + wc / T < wa / T"
    using wa wb wc Tpos by (simp add: add_divide_distrib [symmetric] divide_strict_right_mono)
  moreover have "wa / T + wb / T + wc / T = 1"
    using Tpos by (simp add: add_divide_distrib [symmetric] T)
  ultimately show ?thesis using n nw i by blast
qed

lemma at_anchors:
  "\<exists>b c. nearest 0.9 0.9
      = [\<lparr>name = ''i'', data = \<lparr>formants = [270, 2290, 3010], pos = [0.9, 0.9]\<rparr>, dist = 0\<rparr>, b, c]
     \<and> 1 / 10000 < (dist b)\<^sup>2 \<and> 1 / 10000 < (dist c)\<^sup>2"
  "\<exists>b c. nearest 0.85 0.75
      = [\<lparr>name = ''I'', data = \<lparr>formants = [390, 1990, 2550], pos = [0.85, 0.75]\<rparr>, dist = 0\<rparr>,
         b, c]
     \<and> 1 / 10000 < (dist b)\<^sup>2 \<and> 1 / 10000 < (dist c)\<^sup>2"
  "\<exists>b c. nearest 0.8 0.6
      = [\<lparr>name = ''e'', data = \<lparr>formants = [530, 1840, 2480], pos = [0.8, 0.6]\<rparr>, dist = 0\<rparr>, b, c]
     \<and> 1 / 10000 < (dist b)\<^sup>2 \<and> 1 / 10000 < (dist c)\<^sup>2"
  "\<exists>b c. nearest 0.7 0.4
      = [\<lparr>name = [CHR 0xC9, CHR 0x9B], data = \<lparr>formants = [660, 1720, 2410], pos = [0.7, 0.4]\<rparr>,
          dist = 0\<rparr>, b, c]
     \<and> 1 / 10000 < (dist b)\<^sup>2 \<and> 1 / 10000 < (dist c)\<^sup>2"
  "\<exists>b c. nearest 0.7 0.2
      = [\<lparr>name = [CHR 0xC3, CHR 0xA6], data = \<lparr>formants = [860, 1550, 2410], pos = [0.7, 0.2]\<rparr>,
          dist = 0\<rparr>, b, c]
     \<and> 1 / 10000 < (dist b)\<^sup>2 \<and> 1 / 10000 < (dist c)\<^sup>2"
  "\<exists>b c. nearest 0.5 0.5
      = [\<lparr>name = [CHR 0xC9, CHR 0x99], data = \<lparr>formants = [490, 1350, 1690], pos = [0.5, 0.5]\<rparr>,
          dist = 0\<rparr>, b, c]
     \<and> 1 / 10000 < (dist b)\<^sup>2 \<and> 1 / 10000 < (dist c)\<^sup>2"
  "\<exists>b c. nearest 0.4 0.15
      = [\<lparr>name = [CHR 0xC9, CHR 0x91], data = \<lparr>formants = [730, 1090, 2440], pos = [0.4, 0.15]\<rparr>,
          dist = 0\<rparr>, b, c]
     \<and> 1 / 10000 < (dist b)\<^sup>2 \<and> 1 / 10000 < (dist c)\<^sup>2"
  "\<exists>b c. nearest 0.3 0.35
      = [\<lparr>name = [CHR 0xC9, CHR 0x94], data = \<lparr>formants = [570, 840, 2410], pos = [0.3, 0.35]\<rparr>,
          dist = 0\<rparr>, b, c]
     \<and> 1 / 10000 < (dist b)\<^sup>2 \<and> 1 / 10000 < (dist c)\<^sup>2"
  "\<exists>b c. nearest 0.2 0.55
      = [\<lparr>name = ''o'', data = \<lparr>formants = [450, 870, 2410], pos = [0.2, 0.55]\<rparr>, dist = 0\<rparr>, b, c]
     \<and> 1 / 10000 < (dist b)\<^sup>2 \<and> 1 / 10000 < (dist c)\<^sup>2"
  "\<exists>b c. nearest 0.1 0.9
      = [\<lparr>name = ''u'', data = \<lparr>formants = [300, 870, 2240], pos = [0.1, 0.9]\<rparr>, dist = 0\<rparr>, b, c]
     \<and> 1 / 10000 < (dist b)\<^sup>2 \<and> 1 / 10000 < (dist c)\<^sup>2"
  "\<exists>b c. nearest 0.15 0.75
      = [\<lparr>name = [CHR 0xCA, CHR 0x8A], data = \<lparr>formants = [440, 1020, 2240], pos = [0.15, 0.75]\<rparr>,
          dist = 0\<rparr>, b, c]
     \<and> 1 / 10000 < (dist b)\<^sup>2 \<and> 1 / 10000 < (dist c)\<^sup>2"
  by (simp_all add: nearest_def distances_def VOWELS_def Let_def)

subsection \<open>Rounding to double\<close>


lemma round_even_eqI:
  assumes "\<bar>x - of_int m\<bar> < 1/2"
  shows "round_even x = m"
proof (cases "of_int m \<le> x")
  case True
  have "\<lfloor>x\<rfloor> = m" using True assms by (intro floor_unique) linarith+
  moreover have "x - of_int m < 1/2" using assms by linarith
  ultimately show ?thesis by (simp add: round_even_def)
next
  case False
  have f: "\<lfloor>x\<rfloor> = m - 1" using False assms by (intro floor_unique) (simp, linarith)+
  have "1/2 < x - (of_int m - 1)" using assms by linarith
  then show ?thesis by (simp add: round_even_def f)
qed

lemma fl_zero: "fl 0 = 0"
  by (simp add: fl_def)



text \<open>The value of \<open>fl\<close> on a number whose binade is known.\<close>

lemma fl_binade_up:
  fixes n :: nat
  assumes "2 ^ n \<le> \<bar>r\<bar>" "\<bar>r\<bar> < 2 * 2 ^ n"
  shows "fl r = of_int (round_even (r * 2 ^ 52 / 2 ^ n)) * 2 ^ n / 2 ^ 52"
proof -
  have p: "(0::real) < 2 ^ n" by simp
  have r2: "0 < \<bar>r\<bar>" using p assms(1) by linarith
  then have r1: "r \<noteq> 0" by auto
  have "\<lfloor>log 2 \<bar>r\<bar>\<rfloor> = int n"
    using assms r1 r2 by (subst floor_log_eq_powr_iff) (simp_all add: powr_realpow powr_add)
  then have "fl r = of_int (round_even (r / (2 powr (real n - 52)))) * 2 powr (real n - 52)"
    using r1 by (simp add: fl_def Let_def)
  moreover have "2 powr (real n - 52) = (2::real) ^ n / 2 ^ 52"
    by (simp add: powr_diff powr_realpow)
  ultimately show ?thesis by simp
qed

lemma fl_binade_down:
  fixes n :: nat
  assumes "1 / 2 ^ n \<le> \<bar>r\<bar>" "\<bar>r\<bar> < 2 / 2 ^ n"
  shows "fl r = of_int (round_even (r * 2 ^ 52 * 2 ^ n)) / (2 ^ 52 * 2 ^ n)"
proof -
  have p: "(0::real) < 1 / 2 ^ n" by simp
  have r2: "0 < \<bar>r\<bar>" using p assms(1) by linarith
  then have r1: "r \<noteq> 0" by auto
  have a: "2 powr (of_int (- int n)) = 1 / (2::real) ^ n"
    by (simp add: powr_minus powr_realpow divide_inverse)
  have b: "2 powr (of_int (- int n) + 1) = 2 / (2::real) ^ n"
    by (simp only: powr_add a) simp
  have "2 powr (of_int (- int n)) \<le> \<bar>r\<bar> \<and> \<bar>r\<bar> < 2 powr (of_int (- int n) + 1)"
    unfolding a b using assms by simp
  then have "\<lfloor>log 2 \<bar>r\<bar>\<rfloor> = - int n"
    using r1 r2 by (subst floor_log_eq_powr_iff) simp_all
  then have "fl r = of_int (round_even (r / (2 powr (- real n - 52)))) * 2 powr (- real n - 52)"
    using r1 by (simp add: fl_def Let_def)
  moreover have "2 powr (- real n - 52) = 1 / ((2::real) ^ 52 * 2 ^ n)"
    by (simp add: powr_diff powr_realpow powr_minus field_simps)
  ultimately show ?thesis by (simp add: field_simps)
qed

text \<open>
  The correctly rounded square root of \<open>q\<close> is \<open>m / (2 ^ 52 * 2 ^ n)\<close> when \<open>q\<close> lies strictly between the
  squares of the two midpoints next to it.
\<close>

lemma fl_sqrt_down:
  fixes n :: nat and m :: int
  assumes b: "(1 / 2 ^ n)\<^sup>2 \<le> q" "q < (2 / 2 ^ n)\<^sup>2"
    and s: "((of_int m - 1/2) / (2 ^ 52 * 2 ^ n))\<^sup>2 < q"
      "q < ((of_int m + 1/2) / (2 ^ 52 * 2 ^ n))\<^sup>2"
    and m: "0 < m"
  shows "fl (sqrt q) = of_int m / (2 ^ 52 * 2 ^ n)"
proof -
  let ?S = "(2::real) ^ 52 * 2 ^ n"
  have S: "0 < ?S" by simp
  have q: "0 \<le> sqrt q" using b(1) by (simp add: order_trans [OF zero_le_power2])
  have 1: "1 / 2 ^ n \<le> \<bar>sqrt q\<bar>" using b(1) q by (simp add: real_le_rsqrt)
  have 2: "\<bar>sqrt q\<bar> < 2 / 2 ^ n" using b(2) q by (simp add: real_less_lsqrt)
  have lo: "(of_int m - 1/2) / ?S < sqrt q" using s(1) by (rule real_less_rsqrt)
  have "(0::real) \<le> (of_int m + 1/2) / ?S" using m by simp
  then have hi: "sqrt q < (of_int m + 1/2) / ?S" using s(2) by (rule real_less_lsqrt)
  have "of_int m - 1/2 < sqrt q * ?S" "sqrt q * ?S < of_int m + 1/2"
    using lo hi S by (simp_all add: pos_divide_less_eq pos_less_divide_eq)
  then have "\<bar>sqrt q * ?S - of_int m\<bar> < 1/2" by linarith
  then have r: "round_even (sqrt q * 2 ^ 52 * 2 ^ n) = m"
    by (intro round_even_eqI) (simp add: mult.assoc)
  show ?thesis by (simp only: fl_binade_down [OF 1 2] r)
qed

subsection \<open>The quotient of the loop under a rounding with bounded relative error\<close>




subsection \<open>Values in doubles\<close>
















































































lemma updateVowel_fl_exact: "updateVowel_fl (\<lambda>r. r) sqrt s = updateVowel s"
proof -
  have l: "updateVowel_loop_fl (\<lambda>r. r) s fs now is = updateVowel_loop s fs now is"
    for fs now "is"
    by (induction "is") (simp_all add: exact_instance Let_def)
  have sc: "scaleFormantsForGender_fl (\<lambda>r. r) fs g = scaleFormantsForGender fs g" for fs g
    by (simp add: scaleFormantsForGender_fl_def scaleFormantsForGender_def)
  show ?thesis
    by (simp add: updateVowel_fl_def updateVowel_def l sc exact_instance Let_def
        split: option.splits del: upt_Suc)
qed







































































































text \<open>
  The query at each anchor's own position, in doubles: the position is the double nearest to
  the catalog's decimal, as the catalog and the caller both hold it. The facts below evaluate
  every rounding on the way to the three selected entries and their normalized weights.
\<close>

lemma fl_anchor_1: "fl (9 / 10) = 8106479329266893 / 9007199254740992"
  by (subst fl_binade_down [where n = 1]) (simp_all add: round_even_def)

lemma fl_anchor_2: "fl (17 / 20) = 7656119366529843 / 9007199254740992"
  by (subst fl_binade_down [where n = 1]) (simp_all add: round_even_def)

lemma fl_anchor_3: "fl (3 / 4) = 3 / 4"
  by (subst fl_binade_down [where n = 1]) (simp_all add: round_even_def)

lemma fl_anchor_4: "fl (4 / 5) = 3602879701896397 / 4503599627370496"
  by (subst fl_binade_down [where n = 1]) (simp_all add: round_even_def)

lemma fl_anchor_5: "fl (3 / 5) = 5404319552844595 / 9007199254740992"
  by (subst fl_binade_down [where n = 1]) (simp_all add: round_even_def)

lemma fl_anchor_6: "fl (7 / 10) = 3152519739159347 / 4503599627370496"
  by (subst fl_binade_down [where n = 1]) (simp_all add: round_even_def)

lemma fl_anchor_7: "fl (2 / 5) = 3602879701896397 / 9007199254740992"
  by (subst fl_binade_down [where n = 2]) (simp_all add: round_even_def)

lemma fl_anchor_8: "fl (1 / 5) = 3602879701896397 / 18014398509481984"
  by (subst fl_binade_down [where n = 3]) (simp_all add: round_even_def)

lemma fl_anchor_9: "fl (1 / 2) = 1 / 2"
  by (subst fl_binade_down [where n = 1]) (simp_all add: round_even_def)

lemma fl_anchor_10: "fl (3 / 20) = 5404319552844595 / 36028797018963968"
  by (subst fl_binade_down [where n = 3]) (simp_all add: round_even_def)

lemma fl_anchor_11: "fl (3 / 10) = 5404319552844595 / 18014398509481984"
  by (subst fl_binade_down [where n = 2]) (simp_all add: round_even_def)

lemma fl_anchor_12: "fl (7 / 20) = 3152519739159347 / 9007199254740992"
  by (subst fl_binade_down [where n = 2]) (simp_all add: round_even_def)

lemma fl_anchor_13: "fl (11 / 20) = 2476979795053773 / 4503599627370496"
  by (subst fl_binade_down [where n = 1]) (simp_all add: round_even_def)

lemma fl_anchor_14: "fl (1 / 10) = 3602879701896397 / 36028797018963968"
  by (subst fl_binade_down [where n = 4]) (simp_all add: round_even_def)

lemma fl_anchor_15: "fl (1 / 100) = 5764607523034235 / 576460752303423488"
  by (subst fl_binade_down [where n = 7]) (simp_all add: round_even_def)

lemma fl_anchor_16: "fl (- (225179981368525 / 4503599627370496)) = - (225179981368525 / 4503599627370496)"
  by (subst fl_binade_down [where n = 5]) (simp_all add: round_even_def)

lemma fl_anchor_17: "fl (- (1351079888211149 / 9007199254740992)) = - (1351079888211149 / 9007199254740992)"
  by (subst fl_binade_down [where n = 3]) (simp_all add: round_even_def)

lemma fl_anchor_18: "fl (50706024009129266131860675625 / 20282409603651670423947251286016) = 5764607523034245 / 2305843009213693952"
  by (subst fl_binade_down [where n = 9]) (simp_all add: round_even_def)

lemma fl_anchor_19: "fl (1825416864328650878587207900201 / 81129638414606681695789005144064) = 1621295865853379 / 72057594037927936"
  by (subst fl_binade_down [where n = 6]) (simp_all add: round_even_def)

lemma fl_anchor_20: "fl (57646075230342373 / 2305843009213693952) = 7205759403792797 / 288230376151711744"
  by (subst fl_binade_down [where n = 6]) (simp_all add: round_even_def)

lemma fl_anchor_21: "fl (sqrt (7205759403792797 / 288230376151711744)) = 356040812299409 / 2251799813685248"
  by (subst fl_sqrt_down [where n = 3 and m = 5696652996790544]) (simp_all add: power2_eq_square)

lemma fl_anchor_22: "fl (- (900719925474099 / 9007199254740992)) = - (900719925474099 / 9007199254740992)"
  by (subst fl_binade_down [where n = 4]) (simp_all add: round_even_def)

lemma fl_anchor_23: "fl (- (1351079888211149 / 4503599627370496)) = - (1351079888211149 / 4503599627370496)"
  by (subst fl_binade_down [where n = 2]) (simp_all add: round_even_def)

lemma fl_anchor_24: "fl (811296384146066456669919861801 / 81129638414606681695789005144064) = 720575940379279 / 72057594037927936"
  by (subst fl_binade_down [where n = 7]) (simp_all add: round_even_def)

lemma fl_anchor_25: "fl (1825416864328650878587207900201 / 20282409603651670423947251286016) = 1621295865853379 / 18014398509481984"
  by (subst fl_binade_down [where n = 4]) (simp_all add: round_even_def)

lemma fl_anchor_26: "fl (7205759403792795 / 72057594037927936) = 7205759403792795 / 72057594037927936"
  by (subst fl_binade_down [where n = 4]) (simp_all add: round_even_def)

lemma fl_anchor_27: "fl (sqrt (7205759403792795 / 72057594037927936)) = 5696652996790543 / 18014398509481984"
  by (subst fl_sqrt_down [where n = 2 and m = 5696652996790543]) (simp_all add: power2_eq_square)

lemma fl_anchor_28: "fl (- (1801439850948199 / 9007199254740992)) = - (1801439850948199 / 9007199254740992)"
  by (subst fl_binade_down [where n = 3]) (simp_all add: round_even_def)

lemma fl_anchor_29: "fl (- (1 / 2)) = - (1 / 2)"
  by (subst fl_binade_down [where n = 1]) (simp_all add: round_even_def)

lemma fl_anchor_30: "fl (3245185536584269429559381343601 / 81129638414606681695789005144064) = 5764607523034239 / 144115188075855872"
  by (subst fl_binade_down [where n = 5]) (simp_all add: round_even_def)

lemma fl_anchor_31: "fl (1 / 4) = 1 / 4"
  by (subst fl_binade_down [where n = 2]) (simp_all add: round_even_def)

lemma fl_anchor_32: "fl (41793404541998207 / 144115188075855872) = 326510972984361 / 1125899906842624"
  by (subst fl_binade_down [where n = 2]) (simp_all add: round_even_def)

lemma fl_anchor_33: "fl (sqrt (326510972984361 / 1125899906842624)) = 4850525243747933 / 9007199254740992"
  by (subst fl_sqrt_down [where n = 1 and m = 4850525243747933]) (simp_all add: power2_eq_square)

lemma fl_anchor_34: "fl (- (12610078956637389 / 18014398509481984)) = - (3152519739159347 / 4503599627370496)"
  by (subst fl_binade_down [where n = 1]) (simp_all add: round_even_def)

lemma fl_anchor_35: "fl (9938380705789317246726257466409 / 20282409603651670423947251286016) = 8827055269646171 / 18014398509481984"
  by (subst fl_binade_down [where n = 2]) (simp_all add: round_even_def)

lemma fl_anchor_36: "fl (76381049680203607 / 144115188075855872) = 4773815605012725 / 9007199254740992"
  by (subst fl_binade_down [where n = 1]) (simp_all add: round_even_def)

lemma fl_anchor_37: "fl (sqrt (4773815605012725 / 9007199254740992)) = 204916876153625 / 281474976710656"
  by (subst fl_sqrt_down [where n = 1 and m = 6557340036916000]) (simp_all add: power2_eq_square)

lemma fl_anchor_38: "fl (- (3602879701896397 / 9007199254740992)) = - (3602879701896397 / 9007199254740992)"
  by (subst fl_binade_down [where n = 2]) (simp_all add: round_even_def)

lemma fl_anchor_39: "fl (12980742146337070512478121581609 / 81129638414606681695789005144064) = 1441151880758559 / 9007199254740992"
  by (subst fl_binade_down [where n = 3]) (simp_all add: round_even_def)

lemma fl_anchor_40: "fl (1441151880758559 / 4503599627370496) = 1441151880758559 / 4503599627370496"
  by (subst fl_binade_down [where n = 2]) (simp_all add: round_even_def)

lemma fl_anchor_41: "fl (sqrt (1441151880758559 / 4503599627370496)) = 5095241338020619 / 9007199254740992"
  by (subst fl_sqrt_down [where n = 1 and m = 5095241338020619]) (simp_all add: power2_eq_square)

lemma fl_anchor_42: "fl (- (27021597764222977 / 36028797018963968)) = - (3 / 4)"
  by (subst fl_binade_down [where n = 1]) (simp_all add: round_even_def)

lemma fl_anchor_43: "fl (9 / 16) = 9 / 16"
  by (subst fl_binade_down [where n = 1]) (simp_all add: round_even_def)

lemma fl_anchor_44: "fl (13 / 16) = 13 / 16"
  by (subst fl_binade_down [where n = 1]) (simp_all add: round_even_def)

lemma fl_anchor_45: "fl (sqrt (13 / 16)) = 8118979690322419 / 9007199254740992"
  by (subst fl_sqrt_down [where n = 1 and m = 8118979690322419]) (simp_all add: power2_eq_square)

lemma fl_anchor_46: "fl (- (10808639105689191 / 18014398509481984)) = - (1351079888211149 / 2251799813685248)"
  by (subst fl_binade_down [where n = 1]) (simp_all add: round_even_def)

lemma fl_anchor_47: "fl (- (2476979795053773 / 4503599627370496)) = - (2476979795053773 / 4503599627370496)"
  by (subst fl_binade_down [where n = 1]) (simp_all add: round_even_def)

lemma fl_anchor_48: "fl (1825416864328650878587207900201 / 5070602400912917605986812821504) = 1621295865853379 / 4503599627370496"
  by (subst fl_binade_down [where n = 2]) (simp_all add: round_even_def)

lemma fl_anchor_49: "fl (6135428905104631294035961535529 / 20282409603651670423947251286016) = 5449355549118301 / 18014398509481984"
  by (subst fl_binade_down [where n = 2]) (simp_all add: round_even_def)

lemma fl_anchor_50: "fl (11934539012531817 / 18014398509481984) = 1491817376566477 / 2251799813685248"
  by (subst fl_binade_down [where n = 1]) (simp_all add: round_even_def)

lemma fl_anchor_51: "fl (sqrt (1491817376566477 / 2251799813685248)) = 1832832259265645 / 2251799813685248"
  by (subst fl_sqrt_down [where n = 1 and m = 7331329037062580]) (simp_all add: power2_eq_square)

lemma fl_anchor_52: "fl (- (3152519739159347 / 9007199254740992)) = - (3152519739159347 / 9007199254740992)"
  by (subst fl_binade_down [where n = 2]) (simp_all add: round_even_def)

lemma fl_anchor_53: "fl (9938380705789317246726257466409 / 81129638414606681695789005144064) = 8827055269646171 / 72057594037927936"
  by (subst fl_binade_down [where n = 4]) (simp_all add: round_even_def)

lemma fl_anchor_54: "fl (44135276348230855 / 72057594037927936) = 5516909543528857 / 9007199254740992"
  by (subst fl_binade_down [where n = 1]) (simp_all add: round_even_def)

lemma fl_anchor_55: "fl (sqrt (5516909543528857 / 9007199254740992)) = 3524624218585103 / 4503599627370496"
  by (subst fl_sqrt_down [where n = 1 and m = 7049248437170206]) (simp_all add: power2_eq_square)

lemma fl_anchor_56: "fl (- (28823037615171175 / 36028797018963968)) = - (3602879701896397 / 4503599627370496)"
  by (subst fl_binade_down [where n = 1]) (simp_all add: round_even_def)

lemma fl_anchor_57: "fl (12980742146337070512478121581609 / 20282409603651670423947251286016) = 1441151880758559 / 2251799813685248"
  by (subst fl_binade_down [where n = 1]) (simp_all add: round_even_def)

lemma fl_anchor_58: "fl (1441151880758559 / 2251799813685248) = 1441151880758559 / 2251799813685248"
  by (subst fl_binade_down [where n = 1]) (simp_all add: round_even_def)

lemma fl_anchor_59: "fl (sqrt (1441151880758559 / 2251799813685248)) = 3602879701896397 / 4503599627370496"
  by (subst fl_sqrt_down [where n = 1 and m = 7205759403792794]) (simp_all add: power2_eq_square)

lemma fl_anchor_60: "fl (42153692512187843 / 72057594037927936) = 658651445502935 / 1125899906842624"
  by (subst fl_binade_down [where n = 1]) (simp_all add: round_even_def)

lemma fl_anchor_61: "fl (sqrt (658651445502935 / 1125899906842624)) = 3444591357205703 / 4503599627370496"
  by (subst fl_sqrt_down [where n = 1 and m = 6889182714411406]) (simp_all add: power2_eq_square)

lemma fl_anchor_62: "fl (5764607523034235 / 576460752303423488) = 5764607523034235 / 576460752303423488"
  by (subst fl_binade_down [where n = 7]) (simp_all add: round_even_def)

lemma fl_anchor_63: "fl (576460752303423488 / 5764607523034235) = 100"
  by (subst fl_binade_up [where n = 6]) (simp_all add: round_even_def)

lemma fl_anchor_64: "fl (96911055471682939 / 576460752303423488) = 757117620872523 / 4503599627370496"
  by (subst fl_binade_down [where n = 3]) (simp_all add: round_even_def)

lemma fl_anchor_65: "fl (4503599627370496 / 757117620872523) = 6697245264308361 / 1125899906842624"
  by (subst fl_binade_up [where n = 2]) (simp_all add: round_even_def)

lemma fl_anchor_66: "fl (188057503420331611 / 576460752303423488) = 5876796981885363 / 18014398509481984"
  by (subst fl_binade_down [where n = 2]) (simp_all add: round_even_def)

lemma fl_anchor_67: "fl (18014398509481984 / 5876796981885363) = 1725634700855769 / 562949953421312"
  by (subst fl_binade_up [where n = 1]) (simp_all add: round_even_def)

lemma fl_anchor_68: "fl 100 = 100"
  by (subst fl_binade_up [where n = 6]) (simp_all add: round_even_def)

lemma fl_anchor_69: "fl (119287235948570761 / 1125899906842624) = 7455452246785673 / 70368744177664"
  by (subst fl_binade_up [where n = 6]) (simp_all add: round_even_def)

lemma fl_anchor_70: "fl (61369252675141153 / 562949953421312) = 1917789146098161 / 17592186044416"
  by (subst fl_binade_up [where n = 6]) (simp_all add: round_even_def)

lemma fl_anchor_71: "fl (1759218604441600 / 1917789146098161) = 4131223845721415 / 4503599627370496"
  by (subst fl_binade_down [where n = 1]) (simp_all add: round_even_def)

lemma fl_anchor_72: "fl (318916441157541 / 5844690730965824) = 7863667217564945 / 144115188075855872"
  by (subst fl_binade_down [where n = 5]) (simp_all add: round_even_def)

lemma fl_anchor_73: "fl (575211566951923 / 20456417558380384) = 8104715590411267 / 288230376151711744"
  by (subst fl_binade_down [where n = 6]) (simp_all add: round_even_def)

lemma fl_anchor_74: "fl (225179981368525 / 4503599627370496) = 225179981368525 / 4503599627370496"
  by (subst fl_binade_down [where n = 5]) (simp_all add: round_even_def)

lemma fl_anchor_75: "fl (1351079888211149 / 9007199254740992) = 1351079888211149 / 9007199254740992"
  by (subst fl_binade_down [where n = 3]) (simp_all add: round_even_def)

lemma fl_anchor_76: "fl (- (450359962737049 / 9007199254740992)) = - (450359962737049 / 9007199254740992)"
  by (subst fl_binade_down [where n = 5]) (simp_all add: round_even_def)

lemma fl_anchor_77: "fl (202824096036516163807517228401 / 81129638414606681695789005144064) = 1441151880758555 / 576460752303423488"
  by (subst fl_binade_down [where n = 9]) (simp_all add: round_even_def)

lemma fl_anchor_78: "fl (14411518807585587 / 576460752303423488) = 3602879701896397 / 144115188075855872"
  by (subst fl_binade_down [where n = 6]) (simp_all add: round_even_def)

lemma fl_anchor_79: "fl (sqrt (3602879701896397 / 144115188075855872)) = 5696652996790543 / 36028797018963968"
  by (subst fl_sqrt_down [where n = 3 and m = 5696652996790543]) (simp_all add: power2_eq_square)

lemma fl_anchor_80: "fl (5224175567749775 / 36028797018963968) = 5224175567749775 / 36028797018963968"
  by (subst fl_binade_down [where n = 3]) (simp_all add: round_even_def)

lemma fl_anchor_81: "fl (sqrt (5224175567749775 / 36028797018963968)) = 1714919646085347 / 4503599627370496"
  by (subst fl_sqrt_down [where n = 2 and m = 6859678584341388]) (simp_all add: power2_eq_square)

lemma fl_anchor_82: "fl (- (9907919180215091 / 18014398509481984)) = - (2476979795053773 / 4503599627370496)"
  by (subst fl_binade_down [where n = 1]) (simp_all add: round_even_def)

lemma fl_anchor_83: "fl (23418718062326583 / 72057594037927936) = 2927339757790823 / 9007199254740992"
  by (subst fl_binade_down [where n = 2]) (simp_all add: round_even_def)

lemma fl_anchor_84: "fl (sqrt (2927339757790823 / 9007199254740992)) = 5134893619613475 / 9007199254740992"
  by (subst fl_sqrt_down [where n = 1 and m = 5134893619613475]) (simp_all add: power2_eq_square)

lemma fl_anchor_85: "fl (- (1 / 4)) = - (1 / 4)"
  by (subst fl_binade_down [where n = 2]) (simp_all add: round_even_def)

lemma fl_anchor_86: "fl (1 / 16) = 1 / 16"
  by (subst fl_binade_down [where n = 4]) (simp_all add: round_even_def)

lemma fl_anchor_87: "fl (13330654897016667 / 72057594037927936) = 3332663724254167 / 18014398509481984"
  by (subst fl_binade_down [where n = 3]) (simp_all add: round_even_def)

lemma fl_anchor_88: "fl (sqrt (3332663724254167 / 18014398509481984)) = 7748285773434595 / 18014398509481984"
  by (subst fl_sqrt_down [where n = 2 and m = 7748285773434595]) (simp_all add: power2_eq_square)

lemma fl_anchor_89: "fl (- (2026619832316723 / 4503599627370496)) = - (2026619832316723 / 4503599627370496)"
  by (subst fl_binade_down [where n = 2]) (simp_all add: round_even_def)

lemma fl_anchor_90: "fl (- (21617278211378381 / 36028797018963968)) = - (5404319552844595 / 9007199254740992)"
  by (subst fl_binade_down [where n = 1]) (simp_all add: round_even_def)

lemma fl_anchor_91: "fl (4107187944739462450201385458729 / 20282409603651670423947251286016) = 3647915698170101 / 18014398509481984"
  by (subst fl_binade_down [where n = 3]) (simp_all add: round_even_def)

lemma fl_anchor_92: "fl (29206669829258403248756220714025 / 81129638414606681695789005144064) = 3242591731706757 / 9007199254740992"
  by (subst fl_binade_down [where n = 2]) (simp_all add: round_even_def)

lemma fl_anchor_93: "fl (10133099161583615 / 18014398509481984) = 9 / 16"
  by (subst fl_binade_down [where n = 1]) (simp_all add: round_even_def)

lemma fl_anchor_94: "fl (sqrt (9 / 16)) = 3 / 4"
  by (subst fl_sqrt_down [where n = 1 and m = 6755399441055744]) (simp_all add: power2_eq_square)

lemma fl_anchor_95: "fl (8331659310635419 / 18014398509481984) = 8331659310635419 / 18014398509481984"
  by (subst fl_binade_down [where n = 2]) (simp_all add: round_even_def)

lemma fl_anchor_96: "fl (sqrt (8331659310635419 / 18014398509481984)) = 3062778875741587 / 4503599627370496"
  by (subst fl_sqrt_down [where n = 1 and m = 6125557751483174]) (simp_all add: power2_eq_square)

lemma fl_anchor_97: "fl (- (11709359031163289 / 18014398509481984)) = - (1463669878895411 / 2251799813685248)"
  by (subst fl_binade_down [where n = 1]) (simp_all add: round_even_def)

lemma fl_anchor_98: "fl (- (900719925474099 / 4503599627370496)) = - (900719925474099 / 4503599627370496)"
  by (subst fl_binade_down [where n = 3]) (simp_all add: round_even_def)

lemma fl_anchor_99: "fl (2142329514385707103061476858921 / 5070602400912917605986812821504) = 951385421282017 / 2251799813685248"
  by (subst fl_binade_down [where n = 2]) (simp_all add: round_even_def)

lemma fl_anchor_100: "fl (811296384146066456669919861801 / 20282409603651670423947251286016) = 720575940379279 / 18014398509481984"
  by (subst fl_binade_down [where n = 5]) (simp_all add: round_even_def)

lemma fl_anchor_101: "fl (8331659310635415 / 18014398509481984) = 8331659310635415 / 18014398509481984"
  by (subst fl_binade_down [where n = 2]) (simp_all add: round_even_def)

lemma fl_anchor_102: "fl (sqrt (8331659310635415 / 18014398509481984)) = 1531389437870793 / 2251799813685248"
  by (subst fl_sqrt_down [where n = 1 and m = 6125557751483172]) (simp_all add: power2_eq_square)

lemma fl_anchor_103: "fl (- (27021597764222975 / 36028797018963968)) = - (3 / 4)"
  by (subst fl_binade_down [where n = 1]) (simp_all add: round_even_def)

lemma fl_anchor_104: "fl (- (25220157913274777 / 36028797018963968)) = - (3152519739159347 / 4503599627370496)"
  by (subst fl_binade_down [where n = 1]) (simp_all add: round_even_def)

lemma fl_anchor_105: "fl (8827055269646171 / 18014398509481984) = 8827055269646171 / 18014398509481984"
  by (subst fl_binade_down [where n = 2]) (simp_all add: round_even_def)

lemma fl_anchor_106: "fl (sqrt (8827055269646171 / 18014398509481984)) = 3152519739159347 / 4503599627370496"
  by (subst fl_sqrt_down [where n = 1 and m = 6305039478318694]) (simp_all add: power2_eq_square)

lemma fl_anchor_107: "fl (96911055471682923 / 576460752303423488) = 6056940966980183 / 36028797018963968"
  by (subst fl_binade_down [where n = 3]) (simp_all add: round_even_def)

lemma fl_anchor_108: "fl (36028797018963968 / 6056940966980183) = 3348622632154181 / 562949953421312"
  by (subst fl_binade_up [where n = 2]) (simp_all add: round_even_def)

lemma fl_anchor_109: "fl (59643617974285381 / 562949953421312) = 7455452246785673 / 70368744177664"
  by (subst fl_binade_up [where n = 6]) (simp_all add: round_even_def)

lemma fl_anchor_110: "fl (125984481212879129 / 1125899906842624) = 3937015037902473 / 35184372088832"
  by (subst fl_binade_up [where n = 6]) (simp_all add: round_even_def)

lemma fl_anchor_111: "fl (3518437208883200 / 3937015037902473) = 2012391666059645 / 2251799813685248"
  by (subst fl_binade_down [where n = 1]) (simp_all add: round_even_def)

lemma fl_anchor_112: "fl (3348622632154181 / 62992240606439568) = 7661060724019291 / 144115188075855872"
  by (subst fl_binade_down [where n = 5]) (simp_all add: round_even_def)

lemma fl_anchor_113: "fl (744138362700929 / 13998275690319904) = 3830530362009645 / 72057594037927936"
  by (subst fl_binade_down [where n = 5]) (simp_all add: round_even_def)

lemma fl_anchor_114: "fl (900719925474099 / 9007199254740992) = 900719925474099 / 9007199254740992"
  by (subst fl_binade_down [where n = 4]) (simp_all add: round_even_def)

lemma fl_anchor_115: "fl (1351079888211149 / 4503599627370496) = 1351079888211149 / 4503599627370496"
  by (subst fl_binade_down [where n = 2]) (simp_all add: round_even_def)

lemma fl_anchor_116: "fl (450359962737049 / 9007199254740992) = 450359962737049 / 9007199254740992"
  by (subst fl_binade_down [where n = 5]) (simp_all add: round_even_def)

lemma fl_anchor_117: "fl (- (225179981368525 / 2251799813685248)) = - (225179981368525 / 2251799813685248)"
  by (subst fl_binade_down [where n = 4]) (simp_all add: round_even_def)

lemma fl_anchor_118: "fl (50706024009129266131860675625 / 5070602400912917605986812821504) = 5764607523034245 / 576460752303423488"
  by (subst fl_binade_down [where n = 7]) (simp_all add: round_even_def)

lemma fl_anchor_119: "fl (28823037615171173 / 576460752303423488) = 7205759403792793 / 144115188075855872"
  by (subst fl_binade_down [where n = 5]) (simp_all add: round_even_def)

lemma fl_anchor_120: "fl (sqrt (7205759403792793 / 144115188075855872)) = 8056283928194521 / 36028797018963968"
  by (subst fl_sqrt_down [where n = 3 and m = 8056283928194521]) (simp_all add: power2_eq_square)

lemma fl_anchor_121: "fl (- (7205759403792793 / 18014398509481984)) = - (7205759403792793 / 18014398509481984)"
  by (subst fl_binade_down [where n = 2]) (simp_all add: round_even_def)

lemma fl_anchor_122: "fl (51922968585348267638393678740849 / 324518553658426726783156020576256) = 2882303761517117 / 18014398509481984"
  by (subst fl_binade_down [where n = 3]) (simp_all add: round_even_def)

lemma fl_anchor_123: "fl (97998327891581989 / 576460752303423488) = 3062447746611937 / 18014398509481984"
  by (subst fl_binade_down [where n = 3]) (simp_all add: round_even_def)

lemma fl_anchor_124: "fl (sqrt (3062447746611937 / 18014398509481984)) = 1856881695914089 / 4503599627370496"
  by (subst fl_sqrt_down [where n = 2 and m = 7427526783656356]) (simp_all add: power2_eq_square)

lemma fl_anchor_125: "fl (- (16212958658533785 / 36028797018963968)) = - (2026619832316723 / 4503599627370496)"
  by (subst fl_binade_down [where n = 2]) (simp_all add: round_even_def)

lemma fl_anchor_126: "fl (6530219459687219 / 18014398509481984) = 6530219459687219 / 18014398509481984"
  by (subst fl_binade_down [where n = 2]) (simp_all add: round_even_def)

lemma fl_anchor_127: "fl (sqrt (6530219459687219 / 18014398509481984)) = 5423052085799557 / 9007199254740992"
  by (subst fl_sqrt_down [where n = 1 and m = 5423052085799557]) (simp_all add: power2_eq_square)

lemma fl_anchor_128: "fl (- (9007199254740993 / 18014398509481984)) = - (1 / 2)"
  by (subst fl_binade_down [where n = 1]) (simp_all add: round_even_def)

lemma fl_anchor_129: "fl (5 / 16) = 5 / 16"
  by (subst fl_binade_down [where n = 2]) (simp_all add: round_even_def)

lemma fl_anchor_130: "fl (sqrt (5 / 16)) = 629397181890197 / 1125899906842624"
  by (subst fl_sqrt_down [where n = 1 and m = 5035177455121576]) (simp_all add: power2_eq_square)

lemma fl_anchor_131: "fl (208967022709991067 / 576460752303423488) = 6530219459687221 / 18014398509481984"
  by (subst fl_binade_down [where n = 2]) (simp_all add: round_even_def)

lemma fl_anchor_132: "fl (sqrt (6530219459687221 / 18014398509481984)) = 5423052085799557 / 9007199254740992"
  by (subst fl_sqrt_down [where n = 1 and m = 5423052085799557]) (simp_all add: power2_eq_square)

lemma fl_anchor_133: "fl (- (25220157913274779 / 36028797018963968)) = - (6305039478318695 / 9007199254740992)"
  by (subst fl_binade_down [where n = 1]) (simp_all add: round_even_def)

lemma fl_anchor_134: "fl (39753522823157281596983986503025 / 81129638414606681695789005144064) = 4413527634823087 / 9007199254740992"
  by (subst fl_binade_down [where n = 2]) (simp_all add: round_even_def)

lemma fl_anchor_135: "fl (10448351135499553 / 18014398509481984) = 326510972984361 / 562949953421312"
  by (subst fl_binade_down [where n = 1]) (simp_all add: round_even_def)

lemma fl_anchor_136: "fl (sqrt (326510972984361 / 562949953421312)) = 6859678584341389 / 9007199254740992"
  by (subst fl_sqrt_down [where n = 1 and m = 6859678584341389]) (simp_all add: power2_eq_square)

lemma fl_anchor_137: "fl (- (23418718062326581 / 36028797018963968)) = - (5854679515581645 / 9007199254740992)"
  by (subst fl_binade_down [where n = 1]) (simp_all add: round_even_def)

lemma fl_anchor_138: "fl (34277272230171325358342660906025 / 81129638414606681695789005144064) = 7611083370256139 / 18014398509481984"
  by (subst fl_binade_down [where n = 2]) (simp_all add: round_even_def)

lemma fl_anchor_139: "fl (32065629346877935 / 72057594037927936) = 2004101834179871 / 4503599627370496"
  by (subst fl_binade_down [where n = 2]) (simp_all add: round_even_def)

lemma fl_anchor_140: "fl (sqrt (2004101834179871 / 4503599627370496)) = 3004275665385085 / 4503599627370496"
  by (subst fl_sqrt_down [where n = 1 and m = 6008551330770170]) (simp_all add: power2_eq_square)

lemma fl_anchor_141: "fl (134665150374146571 / 576460752303423488) = 8416571898384161 / 36028797018963968"
  by (subst fl_binade_down [where n = 3]) (simp_all add: round_even_def)

lemma fl_anchor_142: "fl (36028797018963968 / 8416571898384161) = 2409818373623773 / 562949953421312"
  by (subst fl_binade_up [where n = 2]) (simp_all add: round_even_def)

lemma fl_anchor_143: "fl (62053436347909157 / 562949953421312) = 7756679543488645 / 70368744177664"
  by (subst fl_binade_up [where n = 6]) (simp_all add: round_even_def)

lemma fl_anchor_144: "fl (1407374883553280 / 1551335908697729) = 4085674137757697 / 4503599627370496"
  by (subst fl_binade_down [where n = 1]) (simp_all add: round_even_def)

lemma fl_anchor_145: "fl (3348622632154181 / 62053436347909160) = 7776964642574991 / 144115188075855872"
  by (subst fl_binade_down [where n = 5]) (simp_all add: round_even_def)

lemma fl_anchor_146: "fl (344259767660539 / 8864776621129880) = 5596651025034569 / 144115188075855872"
  by (subst fl_binade_down [where n = 5]) (simp_all add: round_even_def)

lemma fl_anchor_147: "fl (1801439850948199 / 9007199254740992) = 1801439850948199 / 9007199254740992"
  by (subst fl_binade_down [where n = 3]) (simp_all add: round_even_def)

lemma fl_anchor_148: "fl (3152519739159347 / 9007199254740992) = 3152519739159347 / 9007199254740992"
  by (subst fl_binade_down [where n = 2]) (simp_all add: round_even_def)

lemma fl_anchor_149: "fl (225179981368525 / 2251799813685248) = 225179981368525 / 2251799813685248"
  by (subst fl_binade_down [where n = 4]) (simp_all add: round_even_def)

lemma fl_anchor_150: "fl (900719925474099 / 4503599627370496) = 900719925474099 / 4503599627370496"
  by (subst fl_binade_down [where n = 3]) (simp_all add: round_even_def)

lemma fl_anchor_151: "fl (- (3602879701896397 / 18014398509481984)) = - (3602879701896397 / 18014398509481984)"
  by (subst fl_binade_down [where n = 3]) (simp_all add: round_even_def)

lemma fl_anchor_152: "fl (12980742146337070512478121581609 / 324518553658426726783156020576256) = 1441151880758559 / 36028797018963968"
  by (subst fl_binade_down [where n = 5]) (simp_all add: round_even_def)

lemma fl_anchor_153: "fl (1441151880758559 / 36028797018963968) = 1441151880758559 / 36028797018963968"
  by (subst fl_binade_down [where n = 5]) (simp_all add: round_even_def)

lemma fl_anchor_154: "fl (sqrt (1441151880758559 / 36028797018963968)) = 3602879701896397 / 18014398509481984"
  by (subst fl_sqrt_down [where n = 3 and m = 7205759403792794]) (simp_all add: power2_eq_square)

lemma fl_anchor_155: "fl (3602879701896395 / 72057594037927936) = 3602879701896395 / 72057594037927936"
  by (subst fl_binade_down [where n = 5]) (simp_all add: round_even_def)

lemma fl_anchor_156: "fl (sqrt (3602879701896395 / 72057594037927936)) = 8056283928194519 / 36028797018963968"
  by (subst fl_sqrt_down [where n = 3 and m = 8056283928194519]) (simp_all add: power2_eq_square)

lemma fl_anchor_157: "fl (- (2702159776422297 / 9007199254740992)) = - (2702159776422297 / 9007199254740992)"
  by (subst fl_binade_down [where n = 2]) (simp_all add: round_even_def)

lemma fl_anchor_158: "fl (- (9007199254740993 / 36028797018963968)) = - (1 / 4)"
  by (subst fl_binade_down [where n = 2]) (simp_all add: round_even_def)

lemma fl_anchor_159: "fl (7301667457314598110029278756209 / 81129638414606681695789005144064) = 6485183463413511 / 72057594037927936"
  by (subst fl_binade_down [where n = 4]) (simp_all add: round_even_def)

lemma fl_anchor_160: "fl (10988783090784007 / 72057594037927936) = 1373597886348001 / 9007199254740992"
  by (subst fl_binade_down [where n = 3]) (simp_all add: round_even_def)

lemma fl_anchor_161: "fl (sqrt (1373597886348001 / 9007199254740992)) = 1758711876504187 / 4503599627370496"
  by (subst fl_sqrt_down [where n = 2 and m = 7034847506016748]) (simp_all add: power2_eq_square)

lemma fl_anchor_162: "fl (374699488997225221 / 2305843009213693952) = 1463669878895411 / 9007199254740992"
  by (subst fl_binade_down [where n = 3]) (simp_all add: round_even_def)

lemma fl_anchor_163: "fl (sqrt (1463669878895411 / 9007199254740992)) = 56733095298441 / 140737488355328"
  by (subst fl_sqrt_down [where n = 2 and m = 7261836198200448]) (simp_all add: power2_eq_square)

lemma fl_anchor_164: "fl (- (9007199254740991 / 18014398509481984)) = - (9007199254740991 / 18014398509481984)"
  by (subst fl_binade_down [where n = 2]) (simp_all add: round_even_def)

lemma fl_anchor_165: "fl (81129638414606663681390495662081 / 324518553658426726783156020576256) = 4503599627370495 / 18014398509481984"
  by (subst fl_binade_down [where n = 3]) (simp_all add: round_even_def)

lemma fl_anchor_166: "fl (19635694375335359 / 72057594037927936) = 306807724614615 / 1125899906842624"
  by (subst fl_binade_down [where n = 2]) (simp_all add: round_even_def)

lemma fl_anchor_167: "fl (sqrt (306807724614615 / 1125899906842624)) = 4701896050316331 / 9007199254740992"
  by (subst fl_sqrt_down [where n = 1 and m = 4701896050316331]) (simp_all add: power2_eq_square)

lemma fl_anchor_168: "fl (- (21617278211378379 / 36028797018963968)) = - (5404319552844595 / 9007199254740992)"
  by (subst fl_binade_down [where n = 1]) (simp_all add: round_even_def)

lemma fl_anchor_169: "fl (5494391545392005 / 9007199254740992) = 5494391545392005 / 9007199254740992"
  by (subst fl_binade_down [where n = 1]) (simp_all add: round_even_def)

lemma fl_anchor_170: "fl (sqrt (5494391545392005 / 9007199254740992)) = 7034847506016749 / 9007199254740992"
  by (subst fl_sqrt_down [where n = 1 and m = 7034847506016749]) (simp_all add: power2_eq_square)

lemma fl_anchor_171: "fl (- (19815838360430181 / 36028797018963968)) = - (4953959590107545 / 9007199254740992)"
  by (subst fl_binade_down [where n = 1]) (simp_all add: round_even_def)

lemma fl_anchor_172: "fl (24541715620418515268224665927025 / 81129638414606681695789005144064) = 5449355549118299 / 18014398509481984"
  by (subst fl_binade_down [where n = 2]) (simp_all add: round_even_def)

lemma fl_anchor_173: "fl (30624477466119367 / 72057594037927936) = 3828059683264921 / 9007199254740992"
  by (subst fl_binade_down [where n = 2]) (simp_all add: round_even_def)

lemma fl_anchor_174: "fl (sqrt (3828059683264921 / 9007199254740992)) = 2935987752282349 / 4503599627370496"
  by (subst fl_sqrt_down [where n = 1 and m = 5871975504564698]) (simp_all add: power2_eq_square)

lemma fl_anchor_175: "fl (121056757983718939 / 576460752303423488) = 3783023686991217 / 18014398509481984"
  by (subst fl_binade_down [where n = 3]) (simp_all add: round_even_def)

lemma fl_anchor_176: "fl (18014398509481984 / 3783023686991217) = 5361428127822019 / 1125899906842624"
  by (subst fl_binade_up [where n = 2]) (simp_all add: round_even_def)

lemma fl_anchor_177: "fl (134665150374146539 / 576460752303423488) = 8416571898384159 / 36028797018963968"
  by (subst fl_binade_down [where n = 3]) (simp_all add: round_even_def)

lemma fl_anchor_178: "fl (36028797018963968 / 8416571898384159) = 4819636747247547 / 1125899906842624"
  by (subst fl_binade_up [where n = 2]) (simp_all add: round_even_def)

lemma fl_anchor_179: "fl (117951418812084419 / 1125899906842624) = 1842990918938819 / 17592186044416"
  by (subst fl_binade_up [where n = 6]) (simp_all add: round_even_def)

lemma fl_anchor_180: "fl (122771055559331963 / 1125899906842624) = 959148871557281 / 8796093022208"
  by (subst fl_binade_up [where n = 6]) (simp_all add: round_even_def)

lemma fl_anchor_181: "fl (879609302220800 / 959148871557281) = 8260257074131665 / 9007199254740992"
  by (subst fl_binade_down [where n = 1]) (simp_all add: round_even_def)

lemma fl_anchor_182: "fl (5361428127822019 / 122771055559331968) = 6293529199338411 / 144115188075855872"
  by (subst fl_binade_down [where n = 5]) (simp_all add: round_even_def)

lemma fl_anchor_183: "fl (4819636747247547 / 122771055559331968) = 707193211301353 / 18014398509481984"
  by (subst fl_binade_down [where n = 5]) (simp_all add: round_even_def)

lemma fl_anchor_184: "fl (12610078956637389 / 18014398509481984) = 3152519739159347 / 4503599627370496"
  by (subst fl_binade_down [where n = 1]) (simp_all add: round_even_def)

lemma fl_anchor_185: "fl (9907919180215091 / 18014398509481984) = 2476979795053773 / 4503599627370496"
  by (subst fl_binade_down [where n = 1]) (simp_all add: round_even_def)

lemma fl_anchor_186: "fl (7205759403792793 / 18014398509481984) = 7205759403792793 / 18014398509481984"
  by (subst fl_binade_down [where n = 2]) (simp_all add: round_even_def)

lemma fl_anchor_187: "fl (3602879701896397 / 18014398509481984) = 3602879701896397 / 18014398509481984"
  by (subst fl_binade_down [where n = 3]) (simp_all add: round_even_def)

lemma fl_anchor_188: "fl (5404319552844595 / 18014398509481984) = 5404319552844595 / 18014398509481984"
  by (subst fl_binade_down [where n = 2]) (simp_all add: round_even_def)

lemma fl_anchor_189: "fl (29206669829258403248756220714025 / 324518553658426726783156020576256) = 3242591731706757 / 36028797018963968"
  by (subst fl_binade_down [where n = 4]) (simp_all add: round_even_def)

lemma fl_anchor_190: "fl (4683743612465315 / 36028797018963968) = 4683743612465315 / 36028797018963968"
  by (subst fl_binade_down [where n = 3]) (simp_all add: round_even_def)

lemma fl_anchor_191: "fl (sqrt (4683743612465315 / 36028797018963968)) = 6495183752257935 / 18014398509481984"
  by (subst fl_sqrt_down [where n = 2 and m = 6495183752257935]) (simp_all add: power2_eq_square)

lemma fl_anchor_192: "fl (- (1801439850948199 / 36028797018963968)) = - (1801439850948199 / 36028797018963968)"
  by (subst fl_binade_down [where n = 5]) (simp_all add: round_even_def)

lemma fl_anchor_193: "fl (3245185536584269429559381343601 / 1298074214633706907132624082305024) = 5764607523034239 / 2305843009213693952"
  by (subst fl_binade_down [where n = 9]) (simp_all add: round_even_def)

lemma fl_anchor_194: "fl (213290478352266591 / 2305843009213693952) = 6665327448508331 / 72057594037927936"
  by (subst fl_binade_down [where n = 4]) (simp_all add: round_even_def)

lemma fl_anchor_195: "fl (sqrt (6665327448508331 / 72057594037927936)) = 2739432706483427 / 9007199254740992"
  by (subst fl_sqrt_down [where n = 2 and m = 5478865412966854]) (simp_all add: power2_eq_square)

lemma fl_anchor_196: "fl (2702159776422297 / 18014398509481984) = 2702159776422297 / 18014398509481984"
  by (subst fl_binade_down [where n = 3]) (simp_all add: round_even_def)

lemma fl_anchor_197: "fl (7301667457314598110029278756209 / 324518553658426726783156020576256) = 6485183463413511 / 288230376151711744"
  by (subst fl_binade_down [where n = 6]) (simp_all add: round_even_def)

lemma fl_anchor_198: "fl (52602043647687383 / 288230376151711744) = 6575255455960923 / 36028797018963968"
  by (subst fl_binade_down [where n = 3]) (simp_all add: round_even_def)

lemma fl_anchor_199: "fl (sqrt (6575255455960923 / 36028797018963968)) = 3847877208366415 / 9007199254740992"
  by (subst fl_sqrt_down [where n = 2 and m = 7695754416732830]) (simp_all add: power2_eq_square)

lemma fl_anchor_200: "fl (6305039478318695 / 18014398509481984) = 6305039478318695 / 18014398509481984"
  by (subst fl_binade_down [where n = 2]) (simp_all add: round_even_def)

lemma fl_anchor_201: "fl (39753522823157281596983986503025 / 324518553658426726783156020576256) = 4413527634823087 / 36028797018963968"
  by (subst fl_binade_down [where n = 4]) (simp_all add: round_even_def)

lemma fl_anchor_202: "fl (13420726889564077 / 36028797018963968) = 3355181722391019 / 9007199254740992"
  by (subst fl_binade_down [where n = 2]) (simp_all add: round_even_def)

lemma fl_anchor_203: "fl (sqrt (3355181722391019 / 9007199254740992)) = 2748671966124777 / 4503599627370496"
  by (subst fl_sqrt_down [where n = 1 and m = 5497343932249554]) (simp_all add: power2_eq_square)

lemma fl_anchor_204: "fl (15312238733059685 / 18014398509481984) = 3828059683264921 / 4503599627370496"
  by (subst fl_binade_down [where n = 1]) (simp_all add: round_even_def)

lemma fl_anchor_205: "fl (sqrt (3828059683264921 / 4503599627370496)) = 8304227396477993 / 9007199254740992"
  by (subst fl_sqrt_down [where n = 1 and m = 8304227396477993]) (simp_all add: power2_eq_square)

lemma fl_anchor_206: "fl (1362338887279575 / 2251799813685248) = 1362338887279575 / 2251799813685248"
  by (subst fl_binade_down [where n = 1]) (simp_all add: round_even_def)

lemma fl_anchor_207: "fl (sqrt (1362338887279575 / 2251799813685248)) = 3502978419889175 / 4503599627370496"
  by (subst fl_sqrt_down [where n = 1 and m = 7005956839778350]) (simp_all add: power2_eq_square)

lemma fl_anchor_208: "fl (181088300737973563 / 576460752303423488) = 2829504699030837 / 9007199254740992"
  by (subst fl_binade_down [where n = 2]) (simp_all add: round_even_def)

lemma fl_anchor_209: "fl (9007199254740992 / 2829504699030837) = 3584091874913445 / 1125899906842624"
  by (subst fl_binade_up [where n = 1]) (simp_all add: round_even_def)

lemma fl_anchor_210: "fl (121535510686997861 / 1125899906842624) = 3797984708968683 / 35184372088832"
  by (subst fl_binade_up [where n = 6]) (simp_all add: round_even_def)

lemma fl_anchor_211: "fl (3518437208883200 / 3797984708968683) = 8344231858245497 / 9007199254740992"
  by (subst fl_binade_down [where n = 1]) (simp_all add: round_even_def)

lemma fl_anchor_212: "fl (5361428127822019 / 121535510686997856) = 794688748404333 / 18014398509481984"
  by (subst fl_binade_down [where n = 5]) (simp_all add: round_even_def)

lemma fl_anchor_213: "fl (1194697291637815 / 40511836895665952) = 4249968356693273 / 144115188075855872"
  by (subst fl_binade_down [where n = 6]) (simp_all add: round_even_def)

lemma fl_anchor_214: "fl (3602879701896397 / 9007199254740992) = 3602879701896397 / 9007199254740992"
  by (subst fl_binade_down [where n = 2]) (simp_all add: round_even_def)

lemma fl_anchor_215: "fl (- (5404319552844595 / 18014398509481984)) = - (5404319552844595 / 18014398509481984)"
  by (subst fl_binade_down [where n = 2]) (simp_all add: round_even_def)

lemma fl_anchor_216: "fl (- (12610078956637389 / 36028797018963968)) = - (3152519739159347 / 9007199254740992)"
  by (subst fl_binade_down [where n = 2]) (simp_all add: round_even_def)

lemma fl_anchor_217: "fl (4773815605012725 / 36028797018963968) = 4773815605012725 / 36028797018963968"
  by (subst fl_binade_down [where n = 3]) (simp_all add: round_even_def)

lemma fl_anchor_218: "fl (sqrt (4773815605012725 / 36028797018963968)) = 204916876153625 / 562949953421312"
  by (subst fl_sqrt_down [where n = 2 and m = 6557340036916000]) (simp_all add: power2_eq_square)

lemma fl_anchor_219: "fl (4503599627370497 / 72057594037927936) = 4503599627370497 / 72057594037927936"
  by (subst fl_binade_down [where n = 4]) (simp_all add: round_even_def)

lemma fl_anchor_220: "fl (sqrt (4503599627370497 / 72057594037927936)) = 1 / 4"
  by (subst fl_sqrt_down [where n = 2 and m = 4503599627370496]) (simp_all add: power2_eq_square)

lemma fl_anchor_221: "fl (213290478352266693 / 2305843009213693952) = 3332663724254167 / 36028797018963968"
  by (subst fl_binade_down [where n = 4]) (simp_all add: round_even_def)

lemma fl_anchor_222: "fl (sqrt (3332663724254167 / 36028797018963968)) = 5478865412966855 / 18014398509481984"
  by (subst fl_sqrt_down [where n = 2 and m = 5478865412966855]) (simp_all add: power2_eq_square)

lemma fl_anchor_223: "fl (- (14411518807585587 / 36028797018963968)) = - (3602879701896397 / 9007199254740992)"
  by (subst fl_binade_down [where n = 2]) (simp_all add: round_even_def)

lemma fl_anchor_224: "fl (149879795598890107 / 576460752303423488) = 1170935903116329 / 4503599627370496"
  by (subst fl_binade_down [where n = 2]) (simp_all add: round_even_def)

lemma fl_anchor_225: "fl (4503599627370496 / 1170935903116329) = 4330384257087015 / 1125899906842624"
  by (subst fl_binade_up [where n = 1]) (simp_all add: round_even_def)

lemma fl_anchor_226: "fl (117409627431509947 / 1125899906842624) = 1834525428617343 / 17592186044416"
  by (subst fl_binade_up [where n = 6]) (simp_all add: round_even_def)

lemma fl_anchor_227: "fl (121740011688596967 / 1125899906842624) = 3804375365268655 / 35184372088832"
  by (subst fl_binade_up [where n = 6]) (simp_all add: round_even_def)

lemma fl_anchor_228: "fl (703687441776640 / 760875073053731) = 4165107535789621 / 4503599627370496"
  by (subst fl_binade_down [where n = 1]) (simp_all add: round_even_def)

lemma fl_anchor_229: "fl (4819636747247547 / 121740011688596960) = 5705460732693079 / 144115188075855872"
  by (subst fl_binade_down [where n = 5]) (simp_all add: round_even_def)

lemma fl_anchor_230: "fl (866076851417403 / 24348002337719392) = 2563143098947459 / 72057594037927936"
  by (subst fl_binade_down [where n = 5]) (simp_all add: round_even_def)

lemma fl_anchor_231: "fl (27021597764222977 / 36028797018963968) = 3 / 4"
  by (subst fl_binade_down [where n = 1]) (simp_all add: round_even_def)

lemma fl_anchor_232: "fl (2026619832316723 / 4503599627370496) = 2026619832316723 / 4503599627370496"
  by (subst fl_binade_down [where n = 2]) (simp_all add: round_even_def)

lemma fl_anchor_233: "fl (21617278211378381 / 36028797018963968) = 5404319552844595 / 9007199254740992"
  by (subst fl_binade_down [where n = 1]) (simp_all add: round_even_def)

lemma fl_anchor_234: "fl (16212958658533785 / 36028797018963968) = 2026619832316723 / 4503599627370496"
  by (subst fl_binade_down [where n = 2]) (simp_all add: round_even_def)

lemma fl_anchor_235: "fl (2702159776422297 / 9007199254740992) = 2702159776422297 / 9007199254740992"
  by (subst fl_binade_down [where n = 2]) (simp_all add: round_even_def)

lemma fl_anchor_236: "fl (9007199254740993 / 36028797018963968) = 1 / 4"
  by (subst fl_binade_down [where n = 2]) (simp_all add: round_even_def)

lemma fl_anchor_237: "fl (1801439850948199 / 36028797018963968) = 1801439850948199 / 36028797018963968"
  by (subst fl_binade_down [where n = 5]) (simp_all add: round_even_def)

lemma fl_anchor_238: "fl (12610078956637389 / 36028797018963968) = 3152519739159347 / 9007199254740992"
  by (subst fl_binade_down [where n = 2]) (simp_all add: round_even_def)

lemma fl_anchor_239: "fl (- (1801439850948199 / 18014398509481984)) = - (1801439850948199 / 18014398509481984)"
  by (subst fl_binade_down [where n = 4]) (simp_all add: round_even_def)

lemma fl_anchor_240: "fl (7205759403792793 / 36028797018963968) = 7205759403792793 / 36028797018963968"
  by (subst fl_binade_down [where n = 3]) (simp_all add: round_even_def)

lemma fl_anchor_241: "fl (3245185536584269429559381343601 / 324518553658426726783156020576256) = 5764607523034239 / 576460752303423488"
  by (subst fl_binade_down [where n = 7]) (simp_all add: round_even_def)

lemma fl_anchor_242: "fl (51922968585348267638393678740849 / 1298074214633706907132624082305024) = 2882303761517117 / 72057594037927936"
  by (subst fl_binade_down [where n = 5]) (simp_all add: round_even_def)

lemma fl_anchor_243: "fl (28823037615171175 / 576460752303423488) = 3602879701896397 / 72057594037927936"
  by (subst fl_binade_down [where n = 5]) (simp_all add: round_even_def)

lemma fl_anchor_244: "fl (sqrt (3602879701896397 / 72057594037927936)) = 8056283928194521 / 36028797018963968"
  by (subst fl_sqrt_down [where n = 3 and m = 8056283928194521]) (simp_all add: power2_eq_square)

lemma fl_anchor_245: "fl (14411518807585589 / 36028797018963968) = 3602879701896397 / 9007199254740992"
  by (subst fl_binade_down [where n = 2]) (simp_all add: round_even_def)

lemma fl_anchor_246: "fl (7205759403792795 / 36028797018963968) = 7205759403792795 / 36028797018963968"
  by (subst fl_binade_down [where n = 3]) (simp_all add: round_even_def)

lemma fl_anchor_247: "fl (sqrt (7205759403792795 / 36028797018963968)) = 4028141964097261 / 9007199254740992"
  by (subst fl_sqrt_down [where n = 2 and m = 8056283928194522]) (simp_all add: power2_eq_square)

lemma fl_anchor_248: "fl (- (10808639105689191 / 36028797018963968)) = - (1351079888211149 / 4503599627370496)"
  by (subst fl_binade_down [where n = 2]) (simp_all add: round_even_def)

lemma fl_anchor_249: "fl (11754395027436995 / 18014398509481984) = 2938598756859249 / 4503599627370496"
  by (subst fl_binade_down [where n = 1]) (simp_all add: round_even_def)

lemma fl_anchor_250: "fl (sqrt (2938598756859249 / 4503599627370496)) = 7275787865621899 / 9007199254740992"
  by (subst fl_sqrt_down [where n = 1 and m = 7275787865621899]) (simp_all add: power2_eq_square)

lemma fl_anchor_251: "fl (3805541685128069 / 9007199254740992) = 3805541685128069 / 9007199254740992"
  by (subst fl_binade_down [where n = 2]) (simp_all add: round_even_def)

lemma fl_anchor_252: "fl (sqrt (3805541685128069 / 9007199254740992)) = 5854679515581645 / 9007199254740992"
  by (subst fl_sqrt_down [where n = 1 and m = 5854679515581645]) (simp_all add: power2_eq_square)

lemma fl_anchor_253: "fl (58704813715754973 / 562949953421312) = 1834525428617343 / 17592186044416"
  by (subst fl_binade_up [where n = 6]) (simp_all add: round_even_def)

lemma fl_anchor_254: "fl (120993719306423397 / 1125899906842624) = 3781053728325731 / 35184372088832"
  by (subst fl_binade_up [where n = 6]) (simp_all add: round_even_def)

lemma fl_anchor_255: "fl (3518437208883200 / 3781053728325731) = 2095399013262553 / 2251799813685248"
  by (subst fl_binade_down [where n = 1]) (simp_all add: round_even_def)

lemma fl_anchor_256: "fl (2409818373623773 / 60496859653211696) = 717581520210789 / 18014398509481984"
  by (subst fl_binade_down [where n = 5]) (simp_all add: round_even_def)

lemma fl_anchor_257: "fl (3584091874913445 / 120993719306423392) = 8537998130732337 / 288230376151711744"
  by (subst fl_binade_down [where n = 6]) (simp_all add: round_even_def)

lemma fl_anchor_258: "fl (10808639105689191 / 18014398509481984) = 1351079888211149 / 2251799813685248"
  by (subst fl_binade_down [where n = 1]) (simp_all add: round_even_def)

lemma fl_anchor_259: "fl (2476979795053773 / 4503599627370496) = 2476979795053773 / 4503599627370496"
  by (subst fl_binade_down [where n = 1]) (simp_all add: round_even_def)

lemma fl_anchor_260: "fl (9007199254740993 / 18014398509481984) = 1 / 2"
  by (subst fl_binade_down [where n = 1]) (simp_all add: round_even_def)

lemma fl_anchor_261: "fl (- (2702159776422297 / 18014398509481984)) = - (2702159776422297 / 18014398509481984)"
  by (subst fl_binade_down [where n = 3]) (simp_all add: round_even_def)

lemma fl_anchor_262: "fl (1801439850948199 / 18014398509481984) = 1801439850948199 / 18014398509481984"
  by (subst fl_binade_down [where n = 4]) (simp_all add: round_even_def)

lemma fl_anchor_263: "fl (- (7205759403792793 / 36028797018963968)) = - (7205759403792793 / 36028797018963968)"
  by (subst fl_binade_down [where n = 3]) (simp_all add: round_even_def)

lemma fl_anchor_264: "fl (7205759403792797 / 144115188075855872) = 7205759403792797 / 144115188075855872"
  by (subst fl_binade_down [where n = 5]) (simp_all add: round_even_def)

lemma fl_anchor_265: "fl (sqrt (7205759403792797 / 144115188075855872)) = 8056283928194523 / 36028797018963968"
  by (subst fl_sqrt_down [where n = 3 and m = 8056283928194523]) (simp_all add: power2_eq_square)

lemma fl_anchor_266: "fl (24679725957990321 / 72057594037927936) = 1542482872374395 / 4503599627370496"
  by (subst fl_binade_down [where n = 2]) (simp_all add: round_even_def)

lemma fl_anchor_267: "fl (sqrt (1542482872374395 / 4503599627370496)) = 2635664107820019 / 4503599627370496"
  by (subst fl_sqrt_down [where n = 1 and m = 5271328215640038]) (simp_all add: power2_eq_square)

lemma fl_anchor_268: "fl (- (5404319552844595 / 36028797018963968)) = - (5404319552844595 / 36028797018963968)"
  by (subst fl_binade_down [where n = 3]) (simp_all add: round_even_def)

lemma fl_anchor_269: "fl (29206669829258403248756220714025 / 1298074214633706907132624082305024) = 3242591731706757 / 144115188075855872"
  by (subst fl_binade_down [where n = 6]) (simp_all add: round_even_def)

lemma fl_anchor_270: "fl (26301021823843701 / 144115188075855872) = 6575255455960925 / 36028797018963968"
  by (subst fl_binade_down [where n = 3]) (simp_all add: round_even_def)

lemma fl_anchor_271: "fl (sqrt (6575255455960925 / 36028797018963968)) = 240492325522901 / 562949953421312"
  by (subst fl_sqrt_down [where n = 2 and m = 7695754416732832]) (simp_all add: power2_eq_square)

lemma fl_anchor_272: "fl (134665150374146603 / 576460752303423488) = 8416571898384163 / 36028797018963968"
  by (subst fl_binade_down [where n = 3]) (simp_all add: round_even_def)

lemma fl_anchor_273: "fl (36028797018963968 / 8416571898384163) = 4819636747247545 / 1125899906842624"
  by (subst fl_binade_up [where n = 2]) (simp_all add: round_even_def)

lemma fl_anchor_274: "fl (122229264178757497 / 1125899906842624) = 954916126396543 / 8796093022208"
  by (subst fl_binade_up [where n = 6]) (simp_all add: round_even_def)

lemma fl_anchor_275: "fl (879609302220800 / 954916126396543) = 8296871350705797 / 9007199254740992"
  by (subst fl_binade_down [where n = 1]) (simp_all add: round_even_def)

lemma fl_anchor_276: "fl (2409818373623773 / 61114632089378752) = 5682623232281549 / 144115188075855872"
  by (subst fl_binade_down [where n = 5]) (simp_all add: round_even_def)

lemma fl_anchor_277: "fl (4819636747247545 / 122229264178757504) = 1420655808070387 / 36028797018963968"
  by (subst fl_binade_down [where n = 5]) (simp_all add: round_even_def)

lemma fl_anchor_278: "fl (11709359031163289 / 18014398509481984) = 1463669878895411 / 2251799813685248"
  by (subst fl_binade_down [where n = 1]) (simp_all add: round_even_def)

lemma fl_anchor_279: "fl (9007199254740991 / 18014398509481984) = 9007199254740991 / 18014398509481984"
  by (subst fl_binade_down [where n = 2]) (simp_all add: round_even_def)

lemma fl_anchor_280: "fl (- (6305039478318695 / 18014398509481984)) = - (6305039478318695 / 18014398509481984)"
  by (subst fl_binade_down [where n = 2]) (simp_all add: round_even_def)

lemma fl_anchor_281: "fl (- (14411518807585589 / 36028797018963968)) = - (3602879701896397 / 9007199254740992)"
  by (subst fl_binade_down [where n = 2]) (simp_all add: round_even_def)

lemma fl_anchor_282: "fl (- (3602879701896397 / 36028797018963968)) = - (3602879701896397 / 36028797018963968)"
  by (subst fl_binade_down [where n = 4]) (simp_all add: round_even_def)

lemma fl_anchor_283: "fl (12980742146337070512478121581609 / 1298074214633706907132624082305024) = 1441151880758559 / 144115188075855872"
  by (subst fl_binade_down [where n = 7]) (simp_all add: round_even_def)

lemma fl_anchor_284: "fl (19095262420050901 / 144115188075855872) = 4773815605012725 / 36028797018963968"
  by (subst fl_binade_down [where n = 3]) (simp_all add: round_even_def)

lemma fl_anchor_285: "fl (97998327891581951 / 2305843009213693952) = 95701492081623 / 2251799813685248"
  by (subst fl_binade_down [where n = 5]) (simp_all add: round_even_def)

lemma fl_anchor_286: "fl (sqrt (95701492081623 / 2251799813685248)) = 7427526783656355 / 36028797018963968"
  by (subst fl_sqrt_down [where n = 3 and m = 7427526783656355]) (simp_all add: power2_eq_square)

lemma fl_anchor_287: "fl (124605036061535915 / 576460752303423488) = 7787814753845995 / 36028797018963968"
  by (subst fl_binade_down [where n = 3]) (simp_all add: round_even_def)

lemma fl_anchor_288: "fl (36028797018963968 / 7787814753845995) = 5208755021717805 / 1125899906842624"
  by (subst fl_binade_up [where n = 2]) (simp_all add: round_even_def)

lemma fl_anchor_289: "fl (117798745705980205 / 1125899906842624) = 7362421606623763 / 70368744177664"
  by (subst fl_binade_up [where n = 6]) (simp_all add: round_even_def)

lemma fl_anchor_290: "fl (122618382453227753 / 1125899906842624) = 7663648903326735 / 70368744177664"
  by (subst fl_binade_up [where n = 6]) (simp_all add: round_even_def)

lemma fl_anchor_291: "fl (1407374883553280 / 1532729780665347) = 8270541984758405 / 9007199254740992"
  by (subst fl_binade_down [where n = 1]) (simp_all add: round_even_def)

lemma fl_anchor_292: "fl (347250334781187 / 8174558830215184) = 6121926374964671 / 144115188075855872"
  by (subst fl_binade_down [where n = 5]) (simp_all add: round_even_def)

lemma fl_anchor_293: "fl (963927349449509 / 24523676490645552) = 5664589944756707 / 144115188075855872"
  by (subst fl_binade_down [where n = 5]) (simp_all add: round_even_def)

lemma fl_anchor_294: "fl (28823037615171175 / 36028797018963968) = 3602879701896397 / 4503599627370496"
  by (subst fl_binade_down [where n = 1]) (simp_all add: round_even_def)

lemma fl_anchor_295: "fl (27021597764222975 / 36028797018963968) = 3 / 4"
  by (subst fl_binade_down [where n = 1]) (simp_all add: round_even_def)

lemma fl_anchor_296: "fl (25220157913274779 / 36028797018963968) = 6305039478318695 / 9007199254740992"
  by (subst fl_binade_down [where n = 1]) (simp_all add: round_even_def)

lemma fl_anchor_297: "fl (21617278211378379 / 36028797018963968) = 5404319552844595 / 9007199254740992"
  by (subst fl_binade_down [where n = 1]) (simp_all add: round_even_def)

lemma fl_anchor_298: "fl (14411518807585587 / 36028797018963968) = 3602879701896397 / 9007199254740992"
  by (subst fl_binade_down [where n = 2]) (simp_all add: round_even_def)

lemma fl_anchor_299: "fl (10808639105689191 / 36028797018963968) = 1351079888211149 / 4503599627370496"
  by (subst fl_binade_down [where n = 2]) (simp_all add: round_even_def)

lemma fl_anchor_300: "fl (3602879701896397 / 36028797018963968) = 3602879701896397 / 36028797018963968"
  by (subst fl_binade_down [where n = 4]) (simp_all add: round_even_def)

lemma fl_anchor_301: "fl (900719925474099 / 18014398509481984) = 900719925474099 / 18014398509481984"
  by (subst fl_binade_down [where n = 5]) (simp_all add: round_even_def)

lemma fl_anchor_302: "fl (811296384146066456669919861801 / 324518553658426726783156020576256) = 720575940379279 / 288230376151711744"
  by (subst fl_binade_down [where n = 9]) (simp_all add: round_even_def)

lemma fl_anchor_303: "fl (7205759403792795 / 288230376151711744) = 7205759403792795 / 288230376151711744"
  by (subst fl_binade_down [where n = 6]) (simp_all add: round_even_def)

lemma fl_anchor_304: "fl (sqrt (7205759403792795 / 288230376151711744)) = 5696652996790543 / 36028797018963968"
  by (subst fl_sqrt_down [where n = 3 and m = 5696652996790543]) (simp_all add: power2_eq_square)

lemma fl_anchor_305: "fl (215599488704346235 / 576460752303423488) = 1684371005502705 / 4503599627370496"
  by (subst fl_binade_down [where n = 2]) (simp_all add: round_even_def)

lemma fl_anchor_306: "fl (4503599627370496 / 1684371005502705) = 6020766665239031 / 2251799813685248"
  by (subst fl_binade_up [where n = 1]) (simp_all add: round_even_def)

lemma fl_anchor_307: "fl (244595238562380567 / 2251799813685248) = 7643601205074393 / 70368744177664"
  by (subst fl_binade_up [where n = 6]) (simp_all add: round_even_def)

lemma fl_anchor_308: "fl (7036874417766400 / 7643601205074393) = 2073058507072995 / 2251799813685248"
  by (subst fl_binade_down [where n = 1]) (simp_all add: round_even_def)

lemma fl_anchor_309: "fl (3348622632154181 / 61148809640595144) = 7892015940529279 / 144115188075855872"
  by (subst fl_binade_down [where n = 5]) (simp_all add: round_even_def)

lemma fl_anchor_310: "fl (6020766665239031 / 244595238562380576) = 7094855365309787 / 288230376151711744"
  by (subst fl_binade_down [where n = 6]) (simp_all add: round_even_def)

lemma fl_anchor_311: "fl (25220157913274777 / 36028797018963968) = 3152519739159347 / 4503599627370496"
  by (subst fl_binade_down [where n = 1]) (simp_all add: round_even_def)

lemma fl_anchor_312: "fl (23418718062326581 / 36028797018963968) = 5854679515581645 / 9007199254740992"
  by (subst fl_binade_down [where n = 1]) (simp_all add: round_even_def)

lemma fl_anchor_313: "fl (19815838360430181 / 36028797018963968) = 4953959590107545 / 9007199254740992"
  by (subst fl_binade_down [where n = 1]) (simp_all add: round_even_def)

lemma fl_anchor_314: "fl (5404319552844595 / 36028797018963968) = 5404319552844595 / 36028797018963968"
  by (subst fl_binade_down [where n = 3]) (simp_all add: round_even_def)

lemma fl_anchor_315: "fl (- (900719925474099 / 18014398509481984)) = - (900719925474099 / 18014398509481984)"
  by (subst fl_binade_down [where n = 5]) (simp_all add: round_even_def)

lemma fl_anchor_316: "fl (124495990970288573 / 1125899906842624) = 1945249858910759 / 17592186044416"
  by (subst fl_binade_up [where n = 6]) (simp_all add: round_even_def)

lemma fl_anchor_317: "fl (1759218604441600 / 1945249858910759) = 4072904164538949 / 4503599627370496"
  by (subst fl_binade_down [where n = 1]) (simp_all add: round_even_def)

lemma fl_anchor_318: "fl (3348622632154181 / 62247995485144288) = 7752657361362561 / 144115188075855872"
  by (subst fl_binade_down [where n = 5]) (simp_all add: round_even_def)

lemma fl_anchor_319: "fl (5208755021717805 / 124495990970288576) = 6029597449246925 / 144115188075855872"
  by (subst fl_binade_down [where n = 5]) (simp_all add: round_even_def)

lemmas fl_anchors =
  fl_anchor_1 fl_anchor_2 fl_anchor_3 fl_anchor_4 fl_anchor_5 fl_anchor_6 fl_anchor_7
  fl_anchor_8 fl_anchor_9 fl_anchor_10 fl_anchor_11 fl_anchor_12 fl_anchor_13 fl_anchor_14
  fl_anchor_15 fl_anchor_16 fl_anchor_17 fl_anchor_18 fl_anchor_19 fl_anchor_20
  fl_anchor_21 fl_anchor_22 fl_anchor_23 fl_anchor_24 fl_anchor_25 fl_anchor_26
  fl_anchor_27 fl_anchor_28 fl_anchor_29 fl_anchor_30 fl_anchor_31 fl_anchor_32
  fl_anchor_33 fl_anchor_34 fl_anchor_35 fl_anchor_36 fl_anchor_37 fl_anchor_38
  fl_anchor_39 fl_anchor_40 fl_anchor_41 fl_anchor_42 fl_anchor_43 fl_anchor_44
  fl_anchor_45 fl_anchor_46 fl_anchor_47 fl_anchor_48 fl_anchor_49 fl_anchor_50
  fl_anchor_51 fl_anchor_52 fl_anchor_53 fl_anchor_54 fl_anchor_55 fl_anchor_56
  fl_anchor_57 fl_anchor_58 fl_anchor_59 fl_anchor_60 fl_anchor_61 fl_anchor_62
  fl_anchor_63 fl_anchor_64 fl_anchor_65 fl_anchor_66 fl_anchor_67 fl_anchor_68
  fl_anchor_69 fl_anchor_70 fl_anchor_71 fl_anchor_72 fl_anchor_73 fl_anchor_74
  fl_anchor_75 fl_anchor_76 fl_anchor_77 fl_anchor_78 fl_anchor_79 fl_anchor_80
  fl_anchor_81 fl_anchor_82 fl_anchor_83 fl_anchor_84 fl_anchor_85 fl_anchor_86
  fl_anchor_87 fl_anchor_88 fl_anchor_89 fl_anchor_90 fl_anchor_91 fl_anchor_92
  fl_anchor_93 fl_anchor_94 fl_anchor_95 fl_anchor_96 fl_anchor_97 fl_anchor_98
  fl_anchor_99 fl_anchor_100 fl_anchor_101 fl_anchor_102 fl_anchor_103 fl_anchor_104
  fl_anchor_105 fl_anchor_106 fl_anchor_107 fl_anchor_108 fl_anchor_109 fl_anchor_110
  fl_anchor_111 fl_anchor_112 fl_anchor_113 fl_anchor_114 fl_anchor_115 fl_anchor_116
  fl_anchor_117 fl_anchor_118 fl_anchor_119 fl_anchor_120 fl_anchor_121 fl_anchor_122
  fl_anchor_123 fl_anchor_124 fl_anchor_125 fl_anchor_126 fl_anchor_127 fl_anchor_128
  fl_anchor_129 fl_anchor_130 fl_anchor_131 fl_anchor_132 fl_anchor_133 fl_anchor_134
  fl_anchor_135 fl_anchor_136 fl_anchor_137 fl_anchor_138 fl_anchor_139 fl_anchor_140
  fl_anchor_141 fl_anchor_142 fl_anchor_143 fl_anchor_144 fl_anchor_145 fl_anchor_146
  fl_anchor_147 fl_anchor_148 fl_anchor_149 fl_anchor_150 fl_anchor_151 fl_anchor_152
  fl_anchor_153 fl_anchor_154 fl_anchor_155 fl_anchor_156 fl_anchor_157 fl_anchor_158
  fl_anchor_159 fl_anchor_160 fl_anchor_161 fl_anchor_162 fl_anchor_163 fl_anchor_164
  fl_anchor_165 fl_anchor_166 fl_anchor_167 fl_anchor_168 fl_anchor_169 fl_anchor_170
  fl_anchor_171 fl_anchor_172 fl_anchor_173 fl_anchor_174 fl_anchor_175 fl_anchor_176
  fl_anchor_177 fl_anchor_178 fl_anchor_179 fl_anchor_180 fl_anchor_181 fl_anchor_182
  fl_anchor_183 fl_anchor_184 fl_anchor_185 fl_anchor_186 fl_anchor_187 fl_anchor_188
  fl_anchor_189 fl_anchor_190 fl_anchor_191 fl_anchor_192 fl_anchor_193 fl_anchor_194
  fl_anchor_195 fl_anchor_196 fl_anchor_197 fl_anchor_198 fl_anchor_199 fl_anchor_200
  fl_anchor_201 fl_anchor_202 fl_anchor_203 fl_anchor_204 fl_anchor_205 fl_anchor_206
  fl_anchor_207 fl_anchor_208 fl_anchor_209 fl_anchor_210 fl_anchor_211 fl_anchor_212
  fl_anchor_213 fl_anchor_214 fl_anchor_215 fl_anchor_216 fl_anchor_217 fl_anchor_218
  fl_anchor_219 fl_anchor_220 fl_anchor_221 fl_anchor_222 fl_anchor_223 fl_anchor_224
  fl_anchor_225 fl_anchor_226 fl_anchor_227 fl_anchor_228 fl_anchor_229 fl_anchor_230
  fl_anchor_231 fl_anchor_232 fl_anchor_233 fl_anchor_234 fl_anchor_235 fl_anchor_236
  fl_anchor_237 fl_anchor_238 fl_anchor_239 fl_anchor_240 fl_anchor_241 fl_anchor_242
  fl_anchor_243 fl_anchor_244 fl_anchor_245 fl_anchor_246 fl_anchor_247 fl_anchor_248
  fl_anchor_249 fl_anchor_250 fl_anchor_251 fl_anchor_252 fl_anchor_253 fl_anchor_254
  fl_anchor_255 fl_anchor_256 fl_anchor_257 fl_anchor_258 fl_anchor_259 fl_anchor_260
  fl_anchor_261 fl_anchor_262 fl_anchor_263 fl_anchor_264 fl_anchor_265 fl_anchor_266
  fl_anchor_267 fl_anchor_268 fl_anchor_269 fl_anchor_270 fl_anchor_271 fl_anchor_272
  fl_anchor_273 fl_anchor_274 fl_anchor_275 fl_anchor_276 fl_anchor_277 fl_anchor_278
  fl_anchor_279 fl_anchor_280 fl_anchor_281 fl_anchor_282 fl_anchor_283 fl_anchor_284
  fl_anchor_285 fl_anchor_286 fl_anchor_287 fl_anchor_288 fl_anchor_289 fl_anchor_290
  fl_anchor_291 fl_anchor_292 fl_anchor_293 fl_anchor_294 fl_anchor_295 fl_anchor_296
  fl_anchor_297 fl_anchor_298 fl_anchor_299 fl_anchor_300 fl_anchor_301 fl_anchor_302
  fl_anchor_303 fl_anchor_304 fl_anchor_305 fl_anchor_306 fl_anchor_307 fl_anchor_308
  fl_anchor_309 fl_anchor_310 fl_anchor_311 fl_anchor_312 fl_anchor_313 fl_anchor_314
  fl_anchor_315 fl_anchor_316 fl_anchor_317 fl_anchor_318 fl_anchor_319

lemma nearest_fl_anchor_1:
  "nearest_fl fl double_sqrt (8106479329266893 / 9007199254740992) (8106479329266893 / 9007199254740992) =
    [\<lparr>name = ''i'', data = \<lparr>formants = [270, 2290, 3010], pos = [8106479329266893 / 9007199254740992, 8106479329266893 / 9007199254740992]\<rparr>,
      dist = 0\<rparr>,
     \<lparr>name = ''I'', data = \<lparr>formants = [390, 1990, 2550], pos = [7656119366529843 / 9007199254740992, 3 / 4]\<rparr>,
      dist = 356040812299409 / 2251799813685248\<rparr>,
     \<lparr>name = ''e'', data = \<lparr>formants = [530, 1840, 2480], pos = [3602879701896397 / 4503599627370496, 5404319552844595 / 9007199254740992]\<rparr>,
      dist = 5696652996790543 / 18014398509481984\<rparr>]"
  by (simp add: nearest_fl_def distances_fl_def VOWELS_fl_def VOWELS_def Let_def double_sqrt_def
      fl_zero fl_anchors)

lemma normalizedWeights_fl_anchor_1:
  "normalizedWeights_fl fl double_sqrt (8106479329266893 / 9007199254740992) (8106479329266893 / 9007199254740992) =
    [4131223845721415 / 4503599627370496,
     7863667217564945 / 144115188075855872,
     8104715590411267 / 288230376151711744]"
  by (simp add: normalizedWeights_fl_def totalWeight_fl_def weights_fl_def nearest_fl_anchor_1
      fl_zero fl_anchors)

lemma nearest_fl_anchor_2:
  "nearest_fl fl double_sqrt (7656119366529843 / 9007199254740992) (3 / 4) =
    [\<lparr>name = ''I'', data = \<lparr>formants = [390, 1990, 2550], pos = [7656119366529843 / 9007199254740992, 3 / 4]\<rparr>,
      dist = 0\<rparr>,
     \<lparr>name = ''e'', data = \<lparr>formants = [530, 1840, 2480], pos = [3602879701896397 / 4503599627370496, 5404319552844595 / 9007199254740992]\<rparr>,
      dist = 5696652996790543 / 36028797018963968\<rparr>,
     \<lparr>name = ''i'', data = \<lparr>formants = [270, 2290, 3010], pos = [8106479329266893 / 9007199254740992, 8106479329266893 / 9007199254740992]\<rparr>,
      dist = 356040812299409 / 2251799813685248\<rparr>]"
  by (simp add: nearest_fl_def distances_fl_def VOWELS_fl_def VOWELS_def Let_def double_sqrt_def
      fl_zero fl_anchors)

lemma normalizedWeights_fl_anchor_2:
  "normalizedWeights_fl fl double_sqrt (7656119366529843 / 9007199254740992) (3 / 4) =
    [2012391666059645 / 2251799813685248,
     7661060724019291 / 144115188075855872,
     3830530362009645 / 72057594037927936]"
  by (simp add: normalizedWeights_fl_def totalWeight_fl_def weights_fl_def nearest_fl_anchor_2
      fl_zero fl_anchors)

lemma nearest_fl_anchor_3:
  "nearest_fl fl double_sqrt (3602879701896397 / 4503599627370496) (5404319552844595 / 9007199254740992) =
    [\<lparr>name = ''e'', data = \<lparr>formants = [530, 1840, 2480], pos = [3602879701896397 / 4503599627370496, 5404319552844595 / 9007199254740992]\<rparr>,
      dist = 0\<rparr>,
     \<lparr>name = ''I'', data = \<lparr>formants = [390, 1990, 2550], pos = [7656119366529843 / 9007199254740992, 3 / 4]\<rparr>,
      dist = 5696652996790543 / 36028797018963968\<rparr>,
     \<lparr>name = [CHR 0xC9, CHR 0x9B], data = \<lparr>formants = [660, 1720, 2410], pos = [3152519739159347 / 4503599627370496, 3602879701896397 / 9007199254740992]\<rparr>,
      dist = 8056283928194521 / 36028797018963968\<rparr>]"
  by (simp add: nearest_fl_def distances_fl_def VOWELS_fl_def VOWELS_def Let_def double_sqrt_def
      fl_zero fl_anchors)

lemma normalizedWeights_fl_anchor_3:
  "normalizedWeights_fl fl double_sqrt (3602879701896397 / 4503599627370496) (5404319552844595 / 9007199254740992) =
    [4085674137757697 / 4503599627370496,
     7776964642574991 / 144115188075855872,
     5596651025034569 / 144115188075855872]"
  by (simp add: normalizedWeights_fl_def totalWeight_fl_def weights_fl_def nearest_fl_anchor_3
      fl_zero fl_anchors)

lemma nearest_fl_anchor_4:
  "nearest_fl fl double_sqrt (3152519739159347 / 4503599627370496) (3602879701896397 / 9007199254740992) =
    [\<lparr>name = [CHR 0xC9, CHR 0x9B], data = \<lparr>formants = [660, 1720, 2410], pos = [3152519739159347 / 4503599627370496, 3602879701896397 / 9007199254740992]\<rparr>,
      dist = 0\<rparr>,
     \<lparr>name = [CHR 0xC3, CHR 0xA6], data = \<lparr>formants = [860, 1550, 2410], pos = [3152519739159347 / 4503599627370496, 3602879701896397 / 18014398509481984]\<rparr>,
      dist = 3602879701896397 / 18014398509481984\<rparr>,
     \<lparr>name = [CHR 0xC9, CHR 0x99], data = \<lparr>formants = [490, 1350, 1690], pos = [1 / 2, 1 / 2]\<rparr>,
      dist = 8056283928194519 / 36028797018963968\<rparr>]"
  by (simp add: nearest_fl_def distances_fl_def VOWELS_fl_def VOWELS_def Let_def double_sqrt_def
      fl_zero fl_anchors)

lemma normalizedWeights_fl_anchor_4:
  "normalizedWeights_fl fl double_sqrt (3152519739159347 / 4503599627370496) (3602879701896397 / 9007199254740992) =
    [8260257074131665 / 9007199254740992,
     6293529199338411 / 144115188075855872,
     707193211301353 / 18014398509481984]"
  by (simp add: normalizedWeights_fl_def totalWeight_fl_def weights_fl_def nearest_fl_anchor_4
      fl_zero fl_anchors)

lemma nearest_fl_anchor_5:
  "nearest_fl fl double_sqrt (3152519739159347 / 4503599627370496) (3602879701896397 / 18014398509481984) =
    [\<lparr>name = [CHR 0xC3, CHR 0xA6], data = \<lparr>formants = [860, 1550, 2410], pos = [3152519739159347 / 4503599627370496, 3602879701896397 / 18014398509481984]\<rparr>,
      dist = 0\<rparr>,
     \<lparr>name = [CHR 0xC9, CHR 0x9B], data = \<lparr>formants = [660, 1720, 2410], pos = [3152519739159347 / 4503599627370496, 3602879701896397 / 9007199254740992]\<rparr>,
      dist = 3602879701896397 / 18014398509481984\<rparr>,
     \<lparr>name = [CHR 0xC9, CHR 0x91], data = \<lparr>formants = [730, 1090, 2440], pos = [3602879701896397 / 9007199254740992, 5404319552844595 / 36028797018963968]\<rparr>,
      dist = 2739432706483427 / 9007199254740992\<rparr>]"
  by (simp add: nearest_fl_def distances_fl_def VOWELS_fl_def VOWELS_def Let_def double_sqrt_def
      fl_zero fl_anchors)

lemma normalizedWeights_fl_anchor_5:
  "normalizedWeights_fl fl double_sqrt (3152519739159347 / 4503599627370496) (3602879701896397 / 18014398509481984) =
    [8344231858245497 / 9007199254740992,
     794688748404333 / 18014398509481984,
     4249968356693273 / 144115188075855872]"
  by (simp add: normalizedWeights_fl_def totalWeight_fl_def weights_fl_def nearest_fl_anchor_5
      fl_zero fl_anchors)

lemma nearest_fl_anchor_6:
  "nearest_fl fl double_sqrt (1 / 2) (1 / 2) =
    [\<lparr>name = [CHR 0xC9, CHR 0x99], data = \<lparr>formants = [490, 1350, 1690], pos = [1 / 2, 1 / 2]\<rparr>,
      dist = 0\<rparr>,
     \<lparr>name = [CHR 0xC9, CHR 0x9B], data = \<lparr>formants = [660, 1720, 2410], pos = [3152519739159347 / 4503599627370496, 3602879701896397 / 9007199254740992]\<rparr>,
      dist = 8056283928194519 / 36028797018963968\<rparr>,
     \<lparr>name = [CHR 0xC9, CHR 0x94], data = \<lparr>formants = [570, 840, 2410], pos = [5404319552844595 / 18014398509481984, 3152519739159347 / 9007199254740992]\<rparr>,
      dist = 1 / 4\<rparr>]"
  by (simp add: nearest_fl_def distances_fl_def VOWELS_fl_def VOWELS_def Let_def double_sqrt_def
      fl_zero fl_anchors)

lemma normalizedWeights_fl_anchor_6:
  "normalizedWeights_fl fl double_sqrt (1 / 2) (1 / 2) =
    [4165107535789621 / 4503599627370496,
     5705460732693079 / 144115188075855872,
     2563143098947459 / 72057594037927936]"
  by (simp add: normalizedWeights_fl_def totalWeight_fl_def weights_fl_def nearest_fl_anchor_6
      fl_zero fl_anchors)

lemma nearest_fl_anchor_7:
  "nearest_fl fl double_sqrt (3602879701896397 / 9007199254740992) (5404319552844595 / 36028797018963968) =
    [\<lparr>name = [CHR 0xC9, CHR 0x91], data = \<lparr>formants = [730, 1090, 2440], pos = [3602879701896397 / 9007199254740992, 5404319552844595 / 36028797018963968]\<rparr>,
      dist = 0\<rparr>,
     \<lparr>name = [CHR 0xC9, CHR 0x94], data = \<lparr>formants = [570, 840, 2410], pos = [5404319552844595 / 18014398509481984, 3152519739159347 / 9007199254740992]\<rparr>,
      dist = 8056283928194521 / 36028797018963968\<rparr>,
     \<lparr>name = [CHR 0xC3, CHR 0xA6], data = \<lparr>formants = [860, 1550, 2410], pos = [3152519739159347 / 4503599627370496, 3602879701896397 / 18014398509481984]\<rparr>,
      dist = 2739432706483427 / 9007199254740992\<rparr>]"
  by (simp add: nearest_fl_def distances_fl_def VOWELS_fl_def VOWELS_def Let_def double_sqrt_def
      fl_zero fl_anchors)

lemma normalizedWeights_fl_anchor_7:
  "normalizedWeights_fl fl double_sqrt (3602879701896397 / 9007199254740992) (5404319552844595 / 36028797018963968) =
    [2095399013262553 / 2251799813685248,
     717581520210789 / 18014398509481984,
     8537998130732337 / 288230376151711744]"
  by (simp add: normalizedWeights_fl_def totalWeight_fl_def weights_fl_def nearest_fl_anchor_7
      fl_zero fl_anchors)

lemma nearest_fl_anchor_8:
  "nearest_fl fl double_sqrt (5404319552844595 / 18014398509481984) (3152519739159347 / 9007199254740992) =
    [\<lparr>name = [CHR 0xC9, CHR 0x94], data = \<lparr>formants = [570, 840, 2410], pos = [5404319552844595 / 18014398509481984, 3152519739159347 / 9007199254740992]\<rparr>,
      dist = 0\<rparr>,
     \<lparr>name = [CHR 0xC9, CHR 0x91], data = \<lparr>formants = [730, 1090, 2440], pos = [3602879701896397 / 9007199254740992, 5404319552844595 / 36028797018963968]\<rparr>,
      dist = 8056283928194521 / 36028797018963968\<rparr>,
     \<lparr>name = ''o'', data = \<lparr>formants = [450, 870, 2410], pos = [3602879701896397 / 18014398509481984, 2476979795053773 / 4503599627370496]\<rparr>,
      dist = 8056283928194523 / 36028797018963968\<rparr>]"
  by (simp add: nearest_fl_def distances_fl_def VOWELS_fl_def VOWELS_def Let_def double_sqrt_def
      fl_zero fl_anchors)

lemma normalizedWeights_fl_anchor_8:
  "normalizedWeights_fl fl double_sqrt (5404319552844595 / 18014398509481984) (3152519739159347 / 9007199254740992) =
    [8296871350705797 / 9007199254740992,
     5682623232281549 / 144115188075855872,
     1420655808070387 / 36028797018963968]"
  by (simp add: normalizedWeights_fl_def totalWeight_fl_def weights_fl_def nearest_fl_anchor_8
      fl_zero fl_anchors)

lemma nearest_fl_anchor_9:
  "nearest_fl fl double_sqrt (3602879701896397 / 18014398509481984) (2476979795053773 / 4503599627370496) =
    [\<lparr>name = ''o'', data = \<lparr>formants = [450, 870, 2410], pos = [3602879701896397 / 18014398509481984, 2476979795053773 / 4503599627370496]\<rparr>,
      dist = 0\<rparr>,
     \<lparr>name = [CHR 0xCA, CHR 0x8A], data = \<lparr>formants = [440, 1020, 2240], pos = [5404319552844595 / 36028797018963968, 3 / 4]\<rparr>,
      dist = 7427526783656355 / 36028797018963968\<rparr>,
     \<lparr>name = [CHR 0xC9, CHR 0x94], data = \<lparr>formants = [570, 840, 2410], pos = [5404319552844595 / 18014398509481984, 3152519739159347 / 9007199254740992]\<rparr>,
      dist = 8056283928194523 / 36028797018963968\<rparr>]"
  by (simp add: nearest_fl_def distances_fl_def VOWELS_fl_def VOWELS_def Let_def double_sqrt_def
      fl_zero fl_anchors)

lemma normalizedWeights_fl_anchor_9:
  "normalizedWeights_fl fl double_sqrt (3602879701896397 / 18014398509481984) (2476979795053773 / 4503599627370496) =
    [8270541984758405 / 9007199254740992,
     6121926374964671 / 144115188075855872,
     5664589944756707 / 144115188075855872]"
  by (simp add: normalizedWeights_fl_def totalWeight_fl_def weights_fl_def nearest_fl_anchor_9
      fl_zero fl_anchors)

lemma nearest_fl_anchor_10:
  "nearest_fl fl double_sqrt (3602879701896397 / 36028797018963968) (8106479329266893 / 9007199254740992) =
    [\<lparr>name = ''u'', data = \<lparr>formants = [300, 870, 2240], pos = [3602879701896397 / 36028797018963968, 8106479329266893 / 9007199254740992]\<rparr>,
      dist = 0\<rparr>,
     \<lparr>name = [CHR 0xCA, CHR 0x8A], data = \<lparr>formants = [440, 1020, 2240], pos = [5404319552844595 / 36028797018963968, 3 / 4]\<rparr>,
      dist = 5696652996790543 / 36028797018963968\<rparr>,
     \<lparr>name = ''o'', data = \<lparr>formants = [450, 870, 2410], pos = [3602879701896397 / 18014398509481984, 2476979795053773 / 4503599627370496]\<rparr>,
      dist = 204916876153625 / 562949953421312\<rparr>]"
  by (simp add: nearest_fl_def distances_fl_def VOWELS_fl_def VOWELS_def Let_def double_sqrt_def
      fl_zero fl_anchors)

lemma normalizedWeights_fl_anchor_10:
  "normalizedWeights_fl fl double_sqrt (3602879701896397 / 36028797018963968) (8106479329266893 / 9007199254740992) =
    [2073058507072995 / 2251799813685248,
     7892015940529279 / 144115188075855872,
     7094855365309787 / 288230376151711744]"
  by (simp add: normalizedWeights_fl_def totalWeight_fl_def weights_fl_def nearest_fl_anchor_10
      fl_zero fl_anchors)

lemma nearest_fl_anchor_11:
  "nearest_fl fl double_sqrt (5404319552844595 / 36028797018963968) (3 / 4) =
    [\<lparr>name = [CHR 0xCA, CHR 0x8A], data = \<lparr>formants = [440, 1020, 2240], pos = [5404319552844595 / 36028797018963968, 3 / 4]\<rparr>,
      dist = 0\<rparr>,
     \<lparr>name = ''u'', data = \<lparr>formants = [300, 870, 2240], pos = [3602879701896397 / 36028797018963968, 8106479329266893 / 9007199254740992]\<rparr>,
      dist = 5696652996790543 / 36028797018963968\<rparr>,
     \<lparr>name = ''o'', data = \<lparr>formants = [450, 870, 2410], pos = [3602879701896397 / 18014398509481984, 2476979795053773 / 4503599627370496]\<rparr>,
      dist = 7427526783656355 / 36028797018963968\<rparr>]"
  by (simp add: nearest_fl_def distances_fl_def VOWELS_fl_def VOWELS_def Let_def double_sqrt_def
      fl_zero fl_anchors)

lemma normalizedWeights_fl_anchor_11:
  "normalizedWeights_fl fl double_sqrt (5404319552844595 / 36028797018963968) (3 / 4) =
    [4072904164538949 / 4503599627370496,
     7752657361362561 / 144115188075855872,
     6029597449246925 / 144115188075855872]"
  by (simp add: normalizedWeights_fl_def totalWeight_fl_def weights_fl_def nearest_fl_anchor_11
      fl_zero fl_anchors)

lemmas nearest_fl_anchors =
  nearest_fl_anchor_1
  nearest_fl_anchor_2
  nearest_fl_anchor_3
  nearest_fl_anchor_4
  nearest_fl_anchor_5
  nearest_fl_anchor_6
  nearest_fl_anchor_7
  nearest_fl_anchor_8
  nearest_fl_anchor_9
  nearest_fl_anchor_10
  nearest_fl_anchor_11

lemmas normalizedWeights_fl_anchors =
  normalizedWeights_fl_anchor_1
  normalizedWeights_fl_anchor_2
  normalizedWeights_fl_anchor_3
  normalizedWeights_fl_anchor_4
  normalizedWeights_fl_anchor_5
  normalizedWeights_fl_anchor_6
  normalizedWeights_fl_anchor_7
  normalizedWeights_fl_anchor_8
  normalizedWeights_fl_anchor_9
  normalizedWeights_fl_anchor_10
  normalizedWeights_fl_anchor_11

lemma anchor_blend_fl:
  assumes "nearest_fl rnd sq x y = [\<lparr>name = n, data = d, dist = 0\<rparr>, b, c]"
    and "normalizedWeights_fl rnd sq x y = [v0, v1, v2]"
    and "0 < v1 \<and> 0 < v2 \<and> v1 < v0 \<and> v2 < v0 \<and> v1 + v2 < v0
         \<and> \<bar>v0 + v1 + v2 - 1\<bar> \<le> 1 / 2 ^ 52"
  shows "\<exists>e1 e2 w0 w1 w2.
        nearest_fl rnd sq x y = [\<lparr>name = n, data = d, dist = 0\<rparr>, e1, e2]
      \<and> normalizedWeights_fl rnd sq x y = [w0, w1, w2]
      \<and> 0 < w1 \<and> 0 < w2 \<and> w1 < w0 \<and> w2 < w0 \<and> w1 + w2 < w0
      \<and> \<bar>w0 + w1 + w2 - 1\<bar> \<le> 1 / 2 ^ 52
      \<and> interpolateFormants_fl rnd sq x y =
           map (\<lambda>i. rnd (rnd (rnd (rnd (formants d ! i * w0))
                               + rnd (formants (data e1) ! i * w1))
                          + rnd (formants (data e2) ! i * w2))) [0, 1, 2]"
proof -
  have "interpolateFormants_fl rnd sq x y =
           map (\<lambda>i. rnd (rnd (rnd (rnd (formants d ! i * v0))
                               + rnd (formants (data b) ! i * v1))
                          + rnd (formants (data c) ! i * v2))) [0, 1, 2]"
    by (simp add: interpolateFormants_fl_def assms(1,2) upt_3)
  with assms show ?thesis by blast
qed

lemmas at_anchors_fl =
  anchor_blend_fl [OF nearest_fl_anchor_1 normalizedWeights_fl_anchor_1]
  anchor_blend_fl [OF nearest_fl_anchor_2 normalizedWeights_fl_anchor_2]
  anchor_blend_fl [OF nearest_fl_anchor_3 normalizedWeights_fl_anchor_3]
  anchor_blend_fl [OF nearest_fl_anchor_4 normalizedWeights_fl_anchor_4]
  anchor_blend_fl [OF nearest_fl_anchor_5 normalizedWeights_fl_anchor_5]
  anchor_blend_fl [OF nearest_fl_anchor_6 normalizedWeights_fl_anchor_6]
  anchor_blend_fl [OF nearest_fl_anchor_7 normalizedWeights_fl_anchor_7]
  anchor_blend_fl [OF nearest_fl_anchor_8 normalizedWeights_fl_anchor_8]
  anchor_blend_fl [OF nearest_fl_anchor_9 normalizedWeights_fl_anchor_9]
  anchor_blend_fl [OF nearest_fl_anchor_10 normalizedWeights_fl_anchor_10]
  anchor_blend_fl [OF nearest_fl_anchor_11 normalizedWeights_fl_anchor_11]

section \<open>Properties\<close>

subsection \<open>The end-to-end value at the anchor \<open>i\<close>\<close>

text \<open>
  Claim C1 says that at position \<open>(0.9, 0.9)\<close> with gender factor 0 the three frequencies
  lie within 5 percent of 270, 2290 and 3010 Hz. The first one does not: the two other
  selected anchors keep about 8 percent of the weight between them and pull the first
  formant up to about 283.86 Hz, above \<open>1.05 * 270 = 283.5\<close>.
\<close>

theorem anchor_i_first_formant_counterexample:
  "\<not> \<bar>scaleFormantsForGender (interpolateFormants 0.9 0.9) 0 ! 0 - 270\<bar> \<le> 0.05 * 270"
proof -
  obtain f1 f2 f3 where i: "interpolateFormants 0.9 0.9 = [f1, f2, f3]" and b: "283.8 < f1"
    by (rule interpolate_09)
  have "scaleFormantsForGender (interpolateFormants 0.9 0.9) 0 ! 0 = f1"
    by (simp add: scale_neutral i)
  then show ?thesis using b by simp
qed

text \<open>
  Claim C1, amended. For position \<open>(0.9, 0.9)\<close>, gender factor 0 and quality factor 0,
  \<open>interpolateFormants\<close> followed by \<open>scaleFormantsForGender\<close> returns three frequencies of
  which the first lies between 283.8 and 283.9 Hz, so within 5.2 percent of 270 Hz, and the
  second and third lie within 5 percent of 2290 Hz and 3010 Hz; these are the frequencies
  that \<open>updateVowel\<close> hands to the three filters of a started synthesizer.
\<close>

theorem anchor_i_pipeline:
  "\<exists>f1 f2 f3. scaleFormantsForGender (interpolateFormants 0.9 0.9) 0 = [f1, f2, f3]
      \<and> 283.8 < f1 \<and> f1 < 283.9 \<and> \<bar>f1 - 270\<bar> \<le> 0.052 * 270
      \<and> \<bar>f2 - 2290\<bar> \<le> 0.05 * 2290 \<and> \<bar>f3 - 3010\<bar> \<le> 0.05 * 3010
      \<and> (started s \<and> vowelX s = 0.9 \<and> vowelY s = 0.9 \<and> genderFactor s = 0
            \<and> qualityFactor s = 0 \<longrightarrow>
          filter_frequencies (fst (snd (updateVowel s))) = [f1, f2, f3])"
proof -
  obtain f1 f2 f3 where i: "interpolateFormants 0.9 0.9 = [f1, f2, f3]"
    and b: "283.8 < f1" "f1 < 283.9" "2260 < f2" "f2 < 2262" "2969 < f3" "f3 < 2971"
    by (rule interpolate_09)
  have c: "scaleFormantsForGender (interpolateFormants 0.9 0.9) 0 = [f1, f2, f3]"
    by (simp add: scale_neutral i)
  have u: "filter_frequencies (fst (snd (updateVowel s))) = [f1, f2, f3]"
    if h: "started s \<and> vowelX s = 0.9 \<and> vowelY s = 0.9 \<and> genderFactor s = 0
             \<and> qualityFactor s = 0"
  proof -
    from h have e: "vowelX s = 0.9" "vowelY s = 0.9" "genderFactor s = 0" and st: "started s"
      by blast+
    have "scaleFormantsForGender (interpolateFormants (vowelX s) (vowelY s)) (genderFactor s)
            = [f1, f2, f3]"
      by (simp only: e c)
    with st updateVowel_started [of s f1 f2 f3] show ?thesis by auto
  qed
  have "\<bar>f1 - 270\<bar> \<le> 0.052 * 270" "\<bar>f2 - 2290\<bar> \<le> 0.05 * 2290" "\<bar>f3 - 3010\<bar> \<le> 0.05 * 3010"
    using b by simp_all
  with c b u show ?thesis by blast
qed

theorem anchor_i_pipeline_witness:
  "\<exists>f1 f2 f3. scaleFormantsForGender (interpolateFormants 0.9 0.9) 0 = [f1, f2, f3]
      \<and> 283.8 < f1 \<and> f1 < 283.9 \<and> \<bar>f1 - 270\<bar> \<le> 0.052 * 270
      \<and> \<bar>f2 - 2290\<bar> \<le> 0.05 * 2290 \<and> \<bar>f3 - 3010\<bar> \<le> 0.05 * 3010
      \<and> started ((started_synth 0)\<lparr>vowelX := 0.9, vowelY := 0.9\<rparr>)
      \<and> filter_frequencies
           (fst (snd (updateVowel ((started_synth 0)\<lparr>vowelX := 0.9, vowelY := 0.9\<rparr>))))
          = [f1, f2, f3]"
proof -
  let ?s = "(started_synth 0)\<lparr>vowelX := 0.9, vowelY := 0.9\<rparr>"
  have "started ?s \<and> vowelX ?s = 0.9 \<and> vowelY ?s = 0.9 \<and> genderFactor ?s = 0
          \<and> qualityFactor ?s = 0"
    by (simp add: started_def started_synth_def initial_synth_def)
  with anchor_i_pipeline [of ?s] show ?thesis by blast
qed

subsection \<open>The interpolation against its description\<close>



subsection \<open>Gender scale and bandwidth\<close>

text \<open>
  Claim C3. \<open>scaleFormantsForGender(formants, g)\<close> multiplies every formant frequency by the
  single scalar \<open>1.0 + 0.18 g\<close> when \<open>g\<close> is in \<open>[0,1]\<close> (indeed for every \<open>g \<le> 1\<close>) and by
  \<open>1.18 + 0.25 (g - 1)\<close> when \<open>g > 1\<close>; at \<open>g = 0\<close> it is the identity on every formant list,
  and at \<open>g = 1\<close> the scale factor is exactly \<open>1.18\<close>.
\<close>

theorem scaleFormantsForGender_scalar:
  "(g \<le> 1 \<longrightarrow> scaleFormantsForGender fs g = map (\<lambda>f. f * (1.0 + 0.18 * g)) fs)
   \<and> (g > 1 \<longrightarrow> scaleFormantsForGender fs g = map (\<lambda>f. f * (1.18 + 0.25 * (g - 1))) fs)
   \<and> scaleFormantsForGender fs 0 = fs
   \<and> scaleFormantsForGender fs 1 = map (\<lambda>f. f * 1.18) fs"
  by (simp add: scaleFormantsForGender_def)

theorem scaleFormantsForGender_scalar_witness:
  "scaleFormantsForGender [270, 2290, 3010] (1/2) = [294.3, 2496.1, 3280.9]
   \<and> scaleFormantsForGender [270, 2290, 3010] 2 = [386.1, 3274.7, 4304.3]
   \<and> scaleFormantsForGender [270, 2290, 3010] 0 = [270, 2290, 3010]
   \<and> scaleFormantsForGender [270, 2290, 3010] 1 = [318.6, 2702.2, 3551.8]"
  using scaleFormantsForGender_scalar [of "1/2" "[270, 2290, 3010]"]
        scaleFormantsForGender_scalar [of 2 "[270, 2290, 3010]"]
  by simp

text \<open>
  Claim C4. \<open>calculateBandwidth(centerFreq, q)\<close> is \<open>centerFreq * 0.08 * (1.0 + 0.5 q)\<close>
  when \<open>q \<ge> 0\<close> and \<open>centerFreq * 0.08 * (1.0 + 0.3 q)\<close> when \<open>q < 0\<close>; at \<open>q = 0\<close> it is
  \<open>centerFreq * 0.08\<close> for every frequency.
\<close>

theorem calculateBandwidth_formula:
  "(q \<ge> 0 \<longrightarrow> calculateBandwidth freq q = freq * 0.08 * (1.0 + 0.5 * q))
   \<and> (q < 0 \<longrightarrow> calculateBandwidth freq q = freq * 0.08 * (1.0 + 0.3 * q))
   \<and> calculateBandwidth freq 0 = freq * 0.08"
  by (simp add: calculateBandwidth_def)

theorem calculateBandwidth_formula_witness:
  "calculateBandwidth 1000 1 = 120
   \<and> calculateBandwidth 1000 (-1) = 56
   \<and> calculateBandwidth 1000 0 = 80"
  using calculateBandwidth_formula [of 1 1000] calculateBandwidth_formula [of "-1" 1000]
  by simp

subsection \<open>Positive outputs and safe divisions\<close>

text \<open>
  Claim C5. For every position \<open>(x, y)\<close>, in particular every one in the unit square,
  \<open>interpolateFormants\<close> returns exactly 3 strictly positive frequencies; and for every
  gender factor in \<open>[0,2]\<close> and quality factor in \<open>[-1,1]\<close>, \<open>updateVowel\<close> on a started
  synthesizer hands the filters exactly 3 strictly positive center frequencies and 3
  strictly positive Q values, and ends without an exception.
\<close>

theorem recompute_positive:
  "length (interpolateFormants x y) = 3 \<and> (\<forall>f \<in> set (interpolateFormants x y). 0 < f)
   \<and> (started s \<and> 0 \<le> genderFactor s \<and> genderFactor s \<le> 2
        \<and> -1 \<le> qualityFactor s \<and> qualityFactor s \<le> 1 \<longrightarrow>
       (\<exists>calls. updateVowel s = (s, calls, None)
          \<and> length (filter_frequencies calls) = 3 \<and> (\<forall>f \<in> set (filter_frequencies calls). 0 < f)
          \<and> length (filter_Qs calls) = 3 \<and> (\<forall>Q \<in> set (filter_Qs calls). 0 < Q)))"
proof (intro conjI impI)
  obtain a b c where i: "interpolateFormants x y = [a, b, c]" and p: "0 < a" "0 < b" "0 < c"
    by (rule interpolateFormants_three)
  show "length (interpolateFormants x y) = 3" by (simp add: i)
  show "\<forall>f \<in> set (interpolateFormants x y). 0 < f" using p by (simp add: i)
next
  assume h: "started s \<and> 0 \<le> genderFactor s \<and> genderFactor s \<le> 2
        \<and> -1 \<le> qualityFactor s \<and> qualityFactor s \<le> 1"
  then have g: "0 \<le> genderFactor s" and q: "-1 \<le> qualityFactor s" "qualityFactor s \<le> 1"
    and st: "started s" by simp_all
  obtain f1 f2 f3 where
    fs: "scaleFormantsForGender (interpolateFormants (vowelX s) (vowelY s)) (genderFactor s)
           = [f1, f2, f3]"
    and p: "0 < f1" "0 < f2" "0 < f3"
    using g by (rule scaled_three)
  from updateVowel_started [OF st fs] obtain calls where
    u: "updateVowel s = (s, calls, None)" and ff: "filter_frequencies calls = [f1, f2, f3]"
    and fq: "filter_Qs calls = map (\<lambda>f. f / calculateBandwidth f (qualityFactor s)) [f1, f2, f3]"
    by blast
  have "\<forall>Q \<in> set (filter_Qs calls). 0 < Q"
    using Q_pos [OF p(1) q] Q_pos [OF p(2) q] Q_pos [OF p(3) q] by (simp add: fq)
  moreover have "\<forall>f \<in> set (filter_frequencies calls). 0 < f" using p by (simp add: ff)
  ultimately show "\<exists>calls. updateVowel s = (s, calls, None)
          \<and> length (filter_frequencies calls) = 3 \<and> (\<forall>f \<in> set (filter_frequencies calls). 0 < f)
          \<and> length (filter_Qs calls) = 3 \<and> (\<forall>Q \<in> set (filter_Qs calls). 0 < Q)"
    using u ff fq by simp
qed

theorem recompute_positive_witness:
  "started ((started_synth 0)\<lparr>genderFactor := 2, qualityFactor := -1\<rparr>)
   \<and> (\<exists>calls f1 f2 f3 Q1 Q2 Q3.
        updateVowel ((started_synth 0)\<lparr>genderFactor := 2, qualityFactor := -1\<rparr>)
          = ((started_synth 0)\<lparr>genderFactor := 2, qualityFactor := -1\<rparr>, calls, None)
        \<and> filter_frequencies calls = [f1, f2, f3] \<and> 0 < f1 \<and> 0 < f2 \<and> 0 < f3
        \<and> filter_Qs calls = [Q1, Q2, Q3] \<and> 0 < Q1 \<and> 0 < Q2 \<and> 0 < Q3)"
proof -
  let ?s = "(started_synth 0)\<lparr>genderFactor := 2, qualityFactor := -1\<rparr>"
  have h: "started ?s \<and> 0 \<le> genderFactor ?s \<and> genderFactor ?s \<le> 2
        \<and> -1 \<le> qualityFactor ?s \<and> qualityFactor ?s \<le> 1"
    by (simp add: started_def started_synth_def initial_synth_def)
  with recompute_positive [of "0.5" "0.5" ?s] obtain calls where
    u: "updateVowel ?s = (?s, calls, None)"
    and f: "length (filter_frequencies calls) = 3" "\<forall>f \<in> set (filter_frequencies calls). 0 < f"
    and q: "length (filter_Qs calls) = 3" "\<forall>Q \<in> set (filter_Qs calls). 0 < Q"
    by blast
  from f(1) obtain f1 f2 f3 where ff: "filter_frequencies calls = [f1, f2, f3]"
    by (auto simp: numeral_3_eq_3 length_Suc_conv)
  from q(1) obtain Q1 Q2 Q3 where fq: "filter_Qs calls = [Q1, Q2, Q3]"
    by (auto simp: numeral_3_eq_3 length_Suc_conv)
  have "0 < f1 \<and> 0 < f2 \<and> 0 < f3" using f(2) by (simp add: ff)
  moreover have "0 < Q1 \<and> 0 < Q2 \<and> 0 < Q3" using q(2) by (simp add: fq)
  ultimately show ?thesis using h u ff fq by blast
qed

text \<open>
  Claim C6. For every \<open>centerFreq > 0\<close> and every \<open>q\<close> in \<open>[-1,1]\<close>,
  \<open>calculateBandwidth(centerFreq, q)\<close> is strictly positive, being at least 0.7 times the
  base bandwidth \<open>centerFreq * 0.08\<close>, so the divisor of \<open>Q = freq / bw\<close> is not zero; and
  for every query point, also one that lies on an anchor, every selected anchor has
  \<open>dist \<ge> 0\<close>, so the divisor \<open>dist + 0.01\<close> of its weight is strictly positive, and so is
  the divisor \<open>totalWeight\<close> of the normalized weights.
\<close>

theorem no_division_by_zero:
  "(0 < centerFreq \<and> -1 \<le> q \<and> q \<le> 1 \<longrightarrow>
      0 < calculateBandwidth centerFreq q
      \<and> centerFreq * 0.08 * 0.7 \<le> calculateBandwidth centerFreq q)
   \<and> (\<forall>v \<in> set (nearest x y). 0 \<le> dist v \<and> 0 < dist v + 0.01)
   \<and> 0 < totalWeight x y"
proof (intro conjI impI ballI)
  assume "0 < centerFreq \<and> -1 \<le> q \<and> q \<le> 1"
  then have h: "0 < centerFreq" "-1 \<le> q" "q \<le> 1" by simp_all
  show "0 < calculateBandwidth centerFreq q" using h by (rule bandwidth_pos(1))
  show "centerFreq * 0.08 * 0.7 \<le> calculateBandwidth centerFreq q"
    using h by (rule bandwidth_pos(2))
next
  fix v assume v: "v \<in> set (nearest x y)"
  then show "0 < dist v + 0.01" by (rule weight_pos)
  show "0 \<le> dist v" using v nearest_subset [of x y] distances_props(1) [of v x y] by auto
next
  show "0 < totalWeight x y" by (rule totalWeight_pos)
qed

theorem no_division_by_zero_witness:
  "calculateBandwidth 1000 (-1) = 56 \<and> 0 < calculateBandwidth 1000 (-1)
   \<and> 1000 * 0.08 * 0.7 \<le> calculateBandwidth 1000 (-1)
   \<and> nearest 0.9 0.9 ! 0 \<in> set (nearest 0.9 0.9)
   \<and> dist (nearest 0.9 0.9 ! 0) = 0 \<and> 0 < dist (nearest 0.9 0.9 ! 0) + 0.01
   \<and> 0 < totalWeight 0.9 0.9"
proof -
  have m: "nearest 0.9 0.9 ! 0 \<in> set (nearest 0.9 0.9)"
    by (rule nth_mem) (simp add: length_nearest)
  have z: "dist (nearest 0.9 0.9 ! 0) = 0" by (simp add: nearest_09)
  have c: "calculateBandwidth 1000 (-1) = 56" by (simp add: calculateBandwidth_def)
  note t = no_division_by_zero [of 1000 "-1" "0.9" "0.9"]
  have h: "(0::real) < 1000 \<and> (-1::real) \<le> -1 \<and> (-1::real) \<le> 1" by simp
  from t h have "0 < calculateBandwidth 1000 (-1)"
    "1000 * 0.08 * 0.7 \<le> calculateBandwidth 1000 (-1)"
    by blast+
  moreover from t m have "0 < dist (nearest 0.9 0.9 ! 0) + 0.01" by blast
  moreover from t have "0 < totalWeight 0.9 0.9" by blast
  ultimately have "0 < calculateBandwidth 1000 (-1)"
    "1000 * 0.08 * 0.7 \<le> calculateBandwidth 1000 (-1)"
    "0 < dist (nearest 0.9 0.9 ! 0) + 0.01" "0 < totalWeight 0.9 0.9"
    by blast+
  with m z c show ?thesis by blast
qed

subsection \<open>The exact anchor dominates\<close>

text \<open>
  Claim C7. For every catalog anchor, \<open>interpolateFormants\<close> at the anchor's own position
  selects that anchor first, at distance 0; the three normalized weights are positive, the
  anchor's weight is strictly greater than each of the two others, and even than their sum;
  and the list returned is, band by band, the anchor's formant times its weight plus the two
  other selected anchors' formants times theirs. So the anchor's formants dominate the blend.
  This holds of the exact definitions, where the three weights sum to 1 and the blend is the
  weighted sum, and of the code's doubles, where the three weights sum to 1 within \<open>1 / 2 ^ 52\<close>
  and each product and each sum of the blend is rounded. The two other selected anchors
  need not be the same in both: at the anchor at (0.7, 0.4) the third one is \<open>e\<close> in the
  exact definitions and the schwa in doubles (\<open>nearest_exact_07_04\<close>,
  \<open>nearest_double_07_04\<close>).
\<close>

theorem exact_anchor_dominates_blend:
  "(\<forall>a \<in> set VOWELS.
     \<exists>e1 e2 w0 w1 w2.
        nearest (pos (snd a) ! 0) (pos (snd a) ! 1)
          = [\<lparr>name = fst a, data = snd a, dist = 0\<rparr>, e1, e2]
      \<and> normalizedWeights (pos (snd a) ! 0) (pos (snd a) ! 1) = [w0, w1, w2]
      \<and> 0 < w1 \<and> 0 < w2 \<and> w1 < w0 \<and> w2 < w0 \<and> w1 + w2 < w0 \<and> w0 + w1 + w2 = 1
      \<and> interpolateFormants (pos (snd a) ! 0) (pos (snd a) ! 1) =
           map (\<lambda>i. formants (snd a) ! i * w0 + formants (data e1) ! i * w1
                     + formants (data e2) ! i * w2) [0, 1, 2])
   \<and> (\<forall>a \<in> set (VOWELS_fl fl).
     \<exists>e1 e2 w0 w1 w2.
        nearest_fl fl double_sqrt (pos (snd a) ! 0) (pos (snd a) ! 1)
          = [\<lparr>name = fst a, data = snd a, dist = 0\<rparr>, e1, e2]
      \<and> normalizedWeights_fl fl double_sqrt (pos (snd a) ! 0) (pos (snd a) ! 1) = [w0, w1, w2]
      \<and> 0 < w1 \<and> 0 < w2 \<and> w1 < w0 \<and> w2 < w0 \<and> w1 + w2 < w0
      \<and> \<bar>w0 + w1 + w2 - 1\<bar> \<le> 1 / 2 ^ 52
      \<and> interpolateFormants_fl fl double_sqrt (pos (snd a) ! 0) (pos (snd a) ! 1) =
           map (\<lambda>i. fl (fl (fl (fl (formants (snd a) ! i * w0))
                             + fl (formants (data e1) ! i * w1))
                        + fl (formants (data e2) ! i * w2))) [0, 1, 2])"
proof (rule conjI)
  show "\<forall>a \<in> set VOWELS.
     \<exists>e1 e2 w0 w1 w2.
        nearest (pos (snd a) ! 0) (pos (snd a) ! 1)
          = [\<lparr>name = fst a, data = snd a, dist = 0\<rparr>, e1, e2]
      \<and> normalizedWeights (pos (snd a) ! 0) (pos (snd a) ! 1) = [w0, w1, w2]
      \<and> 0 < w1 \<and> 0 < w2 \<and> w1 < w0 \<and> w2 < w0 \<and> w1 + w2 < w0 \<and> w0 + w1 + w2 = 1
      \<and> interpolateFormants (pos (snd a) ! 0) (pos (snd a) ! 1) =
           map (\<lambda>i. formants (snd a) ! i * w0 + formants (data e1) ! i * w1
                     + formants (data e2) ! i * w2) [0, 1, 2]"
    using at_anchors [THEN exact_anchor_blend]
    by (simp add: VOWELS_def)
  show "\<forall>a \<in> set (VOWELS_fl fl).
     \<exists>e1 e2 w0 w1 w2.
        nearest_fl fl double_sqrt (pos (snd a) ! 0) (pos (snd a) ! 1)
          = [\<lparr>name = fst a, data = snd a, dist = 0\<rparr>, e1, e2]
      \<and> normalizedWeights_fl fl double_sqrt (pos (snd a) ! 0) (pos (snd a) ! 1) = [w0, w1, w2]
      \<and> 0 < w1 \<and> 0 < w2 \<and> w1 < w0 \<and> w2 < w0 \<and> w1 + w2 < w0
      \<and> \<bar>w0 + w1 + w2 - 1\<bar> \<le> 1 / 2 ^ 52
      \<and> interpolateFormants_fl fl double_sqrt (pos (snd a) ! 0) (pos (snd a) ! 1) =
           map (\<lambda>i. fl (fl (fl (fl (formants (snd a) ! i * w0))
                             + fl (formants (data e1) ! i * w1))
                        + fl (formants (data e2) ! i * w2))) [0, 1, 2]"
    using at_anchors_fl
    by (simp add: VOWELS_fl_def VOWELS_def fl_anchors)
qed

theorem exact_anchor_dominates_blend_witness:
  "(''u'', \<lparr>formants = [300, 870, 2240], pos = [0.1, 0.9]\<rparr>) \<in> set VOWELS
   \<and> (\<exists>e1 e2 w0 w1 w2.
        nearest 0.1 0.9
          = [\<lparr>name = ''u'', data = \<lparr>formants = [300, 870, 2240], pos = [0.1, 0.9]\<rparr>, dist = 0\<rparr>,
             e1, e2]
      \<and> normalizedWeights 0.1 0.9 = [w0, w1, w2]
      \<and> 0 < w1 \<and> 0 < w2 \<and> w1 < w0 \<and> w2 < w0 \<and> w1 + w2 < w0 \<and> w0 + w1 + w2 = 1
      \<and> interpolateFormants 0.1 0.9 =
           [300 * w0 + formants (data e1) ! 0 * w1 + formants (data e2) ! 0 * w2,
            870 * w0 + formants (data e1) ! 1 * w1 + formants (data e2) ! 1 * w2,
            2240 * w0 + formants (data e1) ! 2 * w1 + formants (data e2) ! 2 * w2])
   \<and> ([CHR 0xC9, CHR 0x9B], \<lparr>formants = [660, 1720, 2410], pos = [fl 0.7, fl 0.4]\<rparr>)
        \<in> set (VOWELS_fl fl)
   \<and> (\<exists>e1 e2 w0 w1 w2.
        nearest_fl fl double_sqrt (fl 0.7) (fl 0.4)
          = [\<lparr>name = [CHR 0xC9, CHR 0x9B],
              data = \<lparr>formants = [660, 1720, 2410], pos = [fl 0.7, fl 0.4]\<rparr>, dist = 0\<rparr>,
             e1, e2]
      \<and> normalizedWeights_fl fl double_sqrt (fl 0.7) (fl 0.4) = [w0, w1, w2]
      \<and> 0 < w1 \<and> 0 < w2 \<and> w1 < w0 \<and> w2 < w0 \<and> w1 + w2 < w0
      \<and> \<bar>w0 + w1 + w2 - 1\<bar> \<le> 1 / 2 ^ 52
      \<and> interpolateFormants_fl fl double_sqrt (fl 0.7) (fl 0.4) =
           [fl (fl (fl (fl (660 * w0)) + fl (formants (data e1) ! 0 * w1))
                + fl (formants (data e2) ! 0 * w2)),
            fl (fl (fl (fl (1720 * w0)) + fl (formants (data e1) ! 1 * w1))
                + fl (formants (data e2) ! 1 * w2)),
            fl (fl (fl (fl (2410 * w0)) + fl (formants (data e1) ! 2 * w1))
                + fl (formants (data e2) ! 2 * w2))])"
proof -
  let ?u = "(''u'', \<lparr>formants = [300, 870, 2240], pos = [0.1, 0.9]\<rparr>)"
  let ?e = "([CHR 0xC9, CHR 0x9B], \<lparr>formants = [660, 1720, 2410], pos = [fl 0.7, fl 0.4]\<rparr>)"
  have m: "?u \<in> set VOWELS" by (simp add: VOWELS_def)
  have m': "?e \<in> set (VOWELS_fl fl)" by (simp add: VOWELS_fl_def VOWELS_def)
  from exact_anchor_dominates_blend [THEN conjunct1] m
  have u: "\<exists>e1 e2 w0 w1 w2.
        nearest (pos (snd ?u) ! 0) (pos (snd ?u) ! 1)
          = [\<lparr>name = fst ?u, data = snd ?u, dist = 0\<rparr>, e1, e2]
      \<and> normalizedWeights (pos (snd ?u) ! 0) (pos (snd ?u) ! 1) = [w0, w1, w2]
      \<and> 0 < w1 \<and> 0 < w2 \<and> w1 < w0 \<and> w2 < w0 \<and> w1 + w2 < w0 \<and> w0 + w1 + w2 = 1
      \<and> interpolateFormants (pos (snd ?u) ! 0) (pos (snd ?u) ! 1) =
           map (\<lambda>i. formants (snd ?u) ! i * w0 + formants (data e1) ! i * w1
                     + formants (data e2) ! i * w2) [0, 1, 2]"
    by (rule bspec)
  from exact_anchor_dominates_blend [THEN conjunct2] m'
  have e: "\<exists>e1 e2 w0 w1 w2.
        nearest_fl fl double_sqrt (pos (snd ?e) ! 0) (pos (snd ?e) ! 1)
          = [\<lparr>name = fst ?e, data = snd ?e, dist = 0\<rparr>, e1, e2]
      \<and> normalizedWeights_fl fl double_sqrt (pos (snd ?e) ! 0) (pos (snd ?e) ! 1) = [w0, w1, w2]
      \<and> 0 < w1 \<and> 0 < w2 \<and> w1 < w0 \<and> w2 < w0 \<and> w1 + w2 < w0
      \<and> \<bar>w0 + w1 + w2 - 1\<bar> \<le> 1 / 2 ^ 52
      \<and> interpolateFormants_fl fl double_sqrt (pos (snd ?e) ! 0) (pos (snd ?e) ! 1) =
           map (\<lambda>i. fl (fl (fl (fl (formants (snd ?e) ! i * w0))
                             + fl (formants (data e1) ! i * w1))
                        + fl (formants (data e2) ! i * w2))) [0, 1, 2]"
    by (rule bspec)
  from m m' u e show ?thesis by simp
qed

subsection \<open>Running the pipeline again\<close>

text \<open>
  Claim C8. \<open>updateVowel\<close> leaves the object as it was, so the control state is unchanged
  by a run; and a second run, at whatever time \<open>t\<close> the clock of the audio context then
  reads, hands the filters the same center frequencies and the same Q values as the first
  and ends the same way.
\<close>

theorem updateVowel_idempotent:
  "fst (updateVowel s) = s
   \<and> filter_frequencies (fst (snd (updateVowel (at_time t (fst (updateVowel s))))))
       = filter_frequencies (fst (snd (updateVowel s)))
   \<and> filter_Qs (fst (snd (updateVowel (at_time t (fst (updateVowel s))))))
       = filter_Qs (fst (snd (updateVowel s)))
   \<and> snd (snd (updateVowel (at_time t (fst (updateVowel s))))) = snd (snd (updateVowel s))"
  by (simp only: updateVowel_state updateVowel_clock)

theorem updateVowel_idempotent_witness:
  "fst (updateVowel (started_synth 0)) = started_synth 0
   \<and> filter_frequencies (fst (snd (updateVowel (at_time 1 (fst (updateVowel (started_synth 0)))))))
       = filter_frequencies (fst (snd (updateVowel (started_synth 0))))
   \<and> filter_Qs (fst (snd (updateVowel (at_time 1 (fst (updateVowel (started_synth 0)))))))
       = filter_Qs (fst (snd (updateVowel (started_synth 0))))
   \<and> length (filter_frequencies (fst (snd (updateVowel (started_synth 0))))) = 3
   \<and> filter_Qs (fst (snd (updateVowel (started_synth 0)))) = [12.5, 12.5, 12.5]"
proof -
  obtain f1 f2 f3 where
    fs: "scaleFormantsForGender
           (interpolateFormants (vowelX (started_synth 0)) (vowelY (started_synth 0)))
           (genderFactor (started_synth 0)) = [f1, f2, f3]"
    and p: "0 < f1" "0 < f2" "0 < f3"
    by (rule scaled_three [of "genderFactor (started_synth 0)"]) (simp add: started_synth_fields)
  from updateVowel_started [OF started_started_synth fs] obtain calls where
    u: "updateVowel (started_synth 0) = (started_synth 0, calls, None)"
    and ff: "filter_frequencies calls = [f1, f2, f3]"
    and fq: "filter_Qs calls
               = map (\<lambda>f. f / calculateBandwidth f (qualityFactor (started_synth 0))) [f1, f2, f3]"
    by blast
  have "filter_Qs calls = [12.5, 12.5, 12.5]"
    using p by (simp add: fq started_synth_fields calculateBandwidth_def)
  then show ?thesis
    using updateVowel_idempotent [of "started_synth 0" 1] u ff by simp
qed

subsection \<open>Pitch and volume\<close>

text \<open>
  Claim C9 says that \<open>setPitch(f0)\<close> and \<open>setVolume(v)\<close> store the value and hand it to the
  audio graph, for every value. On a synthesizer that has not been started neither makes a
  call to the audio graph, and \<open>setPitch\<close> returns the object exactly as it was: the class
  has no field for the pitch.
\<close>

theorem setters_pass_through_counterexample:
  "setPitch 200 initial_synth = (initial_synth, [], None)
   \<and> snd (setVolume 10 initial_synth) = ([], None)"
  by (simp add: setPitch_def setVolume_def initial_synth_def)

text \<open>
  Claim C9, amended. \<open>setVolume(v)\<close> stores \<open>v\<close> in the field \<open>volume\<close> and changes no other
  field. On a started synthesizer \<open>setVolume(v)\<close> makes the one call that sets the master
  gain to \<open>v\<close> at the current time, and \<open>setPitch(f0)\<close> the one call that sets the target of
  the oscillator frequency to \<open>f0\<close>, each value unchanged. While \<open>isRunning\<close> is false
  neither makes a call.
\<close>

theorem setters_pass_through:
  "fst (setVolume v s) = s\<lparr>volume := v\<rparr>
   \<and> (started s \<longrightarrow>
        (\<exists>ctx. audioContext s = Some ctx
           \<and> snd (setVolume v s) = ([MasterGainValue v (currentTime ctx)], None)
           \<and> snd (setPitch f0 s) = ([OscillatorFrequencyTarget f0 (currentTime ctx) 0.02], None)))
   \<and> (\<not> isRunning s \<longrightarrow>
        snd (setVolume v s) = ([], None) \<and> snd (setPitch f0 s) = ([], None))"
  by (auto simp: setVolume_def setPitch_def started_def Let_def split: option.splits)

theorem setters_pass_through_witness:
  "started (started_synth 3)
   \<and> fst (setVolume 10 (started_synth 3)) = (started_synth 3)\<lparr>volume := 10\<rparr>
   \<and> snd (setVolume 10 (started_synth 3)) = ([MasterGainValue 10 3], None)
   \<and> snd (setPitch 200 (started_synth 3)) = ([OscillatorFrequencyTarget 200 3 0.02], None)
   \<and> \<not> isRunning initial_synth
   \<and> snd (setVolume 10 initial_synth) = ([], None) \<and> snd (setPitch 200 initial_synth) = ([], None)"
proof -
  have a: "started (started_synth 3)" by (rule started_started_synth)
  have b: "\<not> isRunning initial_synth" by (simp add: initial_synth_def)
  from setters_pass_through [of 10 "started_synth 3" 200] a
  obtain ctx where c: "audioContext (started_synth 3) = Some ctx"
    and r: "snd (setVolume 10 (started_synth 3)) = ([MasterGainValue 10 (currentTime ctx)], None)"
       "snd (setPitch 200 (started_synth 3))
          = ([OscillatorFrequencyTarget 200 (currentTime ctx) 0.02], None)"
       "fst (setVolume 10 (started_synth 3)) = (started_synth 3)\<lparr>volume := 10\<rparr>"
    by blast
  from c have t: "currentTime ctx = 3" by (auto simp: started_synth_fields)
  from setters_pass_through [of 10 initial_synth 200] b
  have n: "snd (setVolume 10 initial_synth) = ([], None)"
    "snd (setPitch 200 initial_synth) = ([], None)"
    by blast+
  show ?thesis using a b r n by (simp add: t)
qed

subsection \<open>Q and the center frequency\<close>




end
